theory Spec2Isabelle
  imports Complex_Main
begin

section \<open>JavaScript values as the route handler sees them\<close>

text \<open>
  The handler of \<^verbatim>\<open>app/api/finance/route.ts\<close> works on values produced by
  \<^verbatim>\<open>JSON.parse\<close>: the request body and the reply of the generation service. They
  are trees (no node is shared), so a write through an alias is a functional update
  along the path. Strings stand for their UTF-8 bytes. Numbers are rationals: every
  finite double is one, and only comparison with zero matters below. An object is the
  list of its own properties in the order the engine enumerates them (the order of
  \<^verbatim>\<open>Object.keys\<close>); keys are distinct in every object the engine builds.
  \<open>JUndef\<close> is \<^verbatim>\<open>undefined\<close>, the result of reading a property that is not
  there. \<open>JBuiltin k\<close> is the value found under the inherited name \<open>k\<close> of
  \<^verbatim>\<open>Object.prototype\<close> (a built-in function or the prototype itself): it is truthy
  and is no JSON value.
\<close>

datatype json =
    JUndef
  | JNull
  | JBool bool
  | JNum rat
  | JStr string
  | JArr "json list"
  | JObj "(string \<times> json) list"
  | JBuiltin string

text \<open>
  Everything the handler can throw. \<open>ChartError\<close> is
  \<^verbatim>\<open>new Error("Invalid chart data structure")\<close>; \<open>ServiceError c\<close> is an error raised
  while the request is sent or the reply decoded, with its \<^verbatim>\<open>statusCode\<close> when it has
  one; \<open>NonError\<close> is a thrown value that is no instance of \<^verbatim>\<open>Error\<close>.
  \<open>Unmodelled\<close> is no JavaScript error: it marks an input on which the handler's
  behaviour depends on parts of the language this theory does not describe (number
  formatting, properties of arrays and strings under computed keys, writes to
  non-objects, an error thrown inside the outer \<^verbatim>\<open>catch\<close>). No handler of the model
  catches it.
\<close>

datatype js_error =
    TypeError
  | URIError
  | InvalidCharacterError
  | ChartError
  | ServiceError "nat option"
  | NonError
  | Unmodelled

fun and_then :: "'e + 'a \<Rightarrow> ('a \<Rightarrow> 'e + 'b) \<Rightarrow> 'e + 'b" where
  "and_then (Inl e) f = Inl e"
| "and_then (Inr x) f = f x"

fun map_res :: "('a \<Rightarrow> 'e + 'b) \<Rightarrow> 'a list \<Rightarrow> 'e + 'b list" where
  "map_res f [] = Inr []"
| "map_res f (x # xs) =
     and_then (f x) (\<lambda>y. and_then (map_res f xs) (\<lambda>ys. Inr (y # ys)))"

fun fold_res :: "('b \<Rightarrow> 'a \<Rightarrow> 'e + 'b) \<Rightarrow> 'b \<Rightarrow> 'a list \<Rightarrow> 'e + 'b" where
  "fold_res f acc [] = Inr acc"
| "fold_res f acc (x # xs) = and_then (f acc x) (\<lambda>acc'. fold_res f acc' xs)"

text \<open>Truthiness, as \<^verbatim>\<open>!x\<close>, \<^verbatim>\<open>x || y\<close> and \<^verbatim>\<open>if (x)\<close> test it.\<close>

fun truthy :: "json \<Rightarrow> bool" where
  "truthy JUndef = False"
| "truthy JNull = False"
| "truthy (JBool b) = b"
| "truthy (JNum n) = (n \<noteq> 0)"
| "truthy (JStr s) = (s \<noteq> [])"
| "truthy (JArr xs) = True"
| "truthy (JObj kvs) = True"
| "truthy (JBuiltin k) = True"

text \<open>\<^verbatim>\<open>Array.isArray\<close>.\<close>

fun isArray :: "json \<Rightarrow> bool" where
  "isArray (JArr xs) = True"
| "isArray v = False"

text \<open>The property names every object inherits from \<^verbatim>\<open>Object.prototype\<close>.\<close>

definition object_prototype_keys :: "string list" where
  "object_prototype_keys =
     [''constructor'', ''__defineGetter__'', ''__defineSetter__'', ''hasOwnProperty'',
      ''__lookupGetter__'', ''__lookupSetter__'', ''isPrototypeOf'',
      ''propertyIsEnumerable'', ''toString'', ''valueOf'', ''__proto__'',
      ''toLocaleString'']"

text \<open>
  The property names the handler reads with a fixed name (\<^verbatim>\<open>x.chartType\<close>,
  \<^verbatim>\<open>c.type\<close>, the destructuring patterns). None of them is a property of an array,
  a string, a number or a boolean, so reading one from such a value gives
  \<^verbatim>\<open>undefined\<close>.
\<close>

definition static_keys :: "string list" where
  "static_keys =
     [''messages'', ''fileData'', ''model'', ''role'', ''content'', ''base64'',
      ''mediaType'', ''isText'', ''fileName'', ''stop_reason'', ''type'', ''text'',
      ''input'', ''chartType'', ''data'', ''chartConfig'', ''config'', ''xAxisKey'',
      ''segment'', ''category'', ''name'', ''value'']"

text \<open>
  Reading a property, \<^verbatim>\<open>v.k\<close> or \<^verbatim>\<open>v[k]\<close>: a \<^verbatim>\<open>TypeError\<close> on
  \<^verbatim>\<open>undefined\<close> and \<^verbatim>\<open>null\<close>; on an object the own property, else the inherited
  one, else \<^verbatim>\<open>undefined\<close>.
\<close>

fun get_prop :: "json \<Rightarrow> string \<Rightarrow> js_error + json" where
  "get_prop JUndef k = Inl TypeError"
| "get_prop JNull k = Inl TypeError"
| "get_prop (JObj kvs) k =
     Inr (case map_of kvs k of
            Some v \<Rightarrow> v
          | None \<Rightarrow> if k \<in> set object_prototype_keys then JBuiltin k else JUndef)"
| "get_prop (JBuiltin b) k = Inl Unmodelled"
| "get_prop v k = (if k \<in> set static_keys then Inr JUndef else Inl Unmodelled)"

text \<open>
  Defining or writing the own property \<open>k\<close> of an object: an existing key keeps its
  place, a new one goes last. That is where the engine lists a new key that is no array
  index, and a new array index when the object holds smaller array indices only; the
  handler adds no key otherwise (the order of keys is defined below).
\<close>

fun obj_set :: "(string \<times> json) list \<Rightarrow> string \<Rightarrow> json \<Rightarrow> (string \<times> json) list" where
  "obj_set [] k v = [(k, v)]"
| "obj_set ((k', v') # kvs) k v =
     (if k' = k then (k, v) # kvs else (k', v') # obj_set kvs k v)"

text \<open>The assignment \<^verbatim>\<open>o.k = v\<close>; the result is the object after the write.\<close>

fun set_prop :: "json \<Rightarrow> string \<Rightarrow> json \<Rightarrow> js_error + json" where
  "set_prop JUndef k v = Inl TypeError"
| "set_prop JNull k v = Inl TypeError"
| "set_prop (JObj kvs) k v = Inr (JObj (obj_set kvs k v))"
| "set_prop w k v = Inl Unmodelled"

text \<open>\<^verbatim>\<open>Object.entries(v)\<close> (and the keys of \<^verbatim>\<open>Object.keys(v)\<close>).\<close>

fun object_entries :: "json \<Rightarrow> js_error + (string \<times> json) list" where
  "object_entries JUndef = Inl TypeError"
| "object_entries JNull = Inl TypeError"
| "object_entries (JObj kvs) = Inr kvs"
| "object_entries (JNum n) = Inr []"
| "object_entries (JBool b) = Inr []"
| "object_entries v = Inl Unmodelled"

text \<open>The own properties an object spread \<^verbatim>\<open>{...v}\<close> copies.\<close>

fun spread :: "json \<Rightarrow> js_error + (string \<times> json) list" where
  "spread JUndef = Inr []"
| "spread JNull = Inr []"
| "spread (JObj kvs) = Inr kvs"
| "spread (JNum n) = Inr []"
| "spread (JBool b) = Inr []"
| "spread v = Inl Unmodelled"

text \<open>
  The string a value is converted to, as a property key in \<^verbatim>\<open>item[key]\<close>, in a
  template literal and as the argument of \<^verbatim>\<open>atob\<close>.
\<close>

fun to_string :: "json \<Rightarrow> js_error + string" where
  "to_string (JStr s) = Inr s"
| "to_string JUndef = Inr ''undefined''"
| "to_string JNull = Inr ''null''"
| "to_string (JBool b) = Inr (if b then ''true'' else ''false'')"
| "to_string v = Inl Unmodelled"

text \<open>
  The order of the own keys of an object. A key is an array index when it is the
  decimal numeral, without a leading zero, of an integer below \<open>2^32 - 1\<close>.
  \<^verbatim>\<open>Object.keys\<close>, \<^verbatim>\<open>Object.entries\<close> and the object spread list the array
  indices first, in ascending numeric order, and then the other keys in the order in
  which they were added. \<^verbatim>\<open>JSON.parse\<close> adds the members of an object in the order of
  the text; a member whose key is there already replaces the value and keeps the
  place. \<open>parsed_object members\<close> is the object \<^verbatim>\<open>JSON.parse\<close> builds from an object
  written with these members; \<open>property_list members\<close> is the list of its properties
  as the engine lists them.
\<close>

definition is_digit :: "char \<Rightarrow> bool" where
  "is_digit c = (c \<in> set ''0123456789'')"

definition decimal_value :: "string \<Rightarrow> int" where
  "decimal_value k = foldl (\<lambda>n c. 10 * n + (of_char c - 48)) 0 k"

definition array_index :: "string \<Rightarrow> int option" where
  "array_index k =
     (if k \<noteq> [] \<and> list_all is_digit k \<and> (k = ''0'' \<or> hd k \<noteq> CHR ''0'') \<and>
         decimal_value k < 4294967295
      then Some (decimal_value k) else None)"

definition index_value :: "string \<times> json \<Rightarrow> int" where
  "index_value e = (case array_index (fst e) of Some n \<Rightarrow> n | None \<Rightarrow> 0)"

definition own_property_order :: "(string \<times> json) list \<Rightarrow> (string \<times> json) list" where
  "own_property_order kvs =
     sort_key index_value (filter (\<lambda>e. array_index (fst e) \<noteq> None) kvs) @
     filter (\<lambda>e. array_index (fst e) = None) kvs"

definition add_members :: "(string \<times> json) list \<Rightarrow> (string \<times> json) list" where
  "add_members members = foldl (\<lambda>acc e. obj_set acc (fst e) (snd e)) [] members"

definition property_list :: "(string \<times> json) list \<Rightarrow> (string \<times> json) list" where
  "property_list members = own_property_order (add_members members)"

definition parsed_object :: "(string \<times> json) list \<Rightarrow> json" where
  "parsed_object members = JObj (property_list members)"

section \<open>The chart data normalizer\<close>

text \<open>Decimal digits of a natural number, for the template \<^verbatim>\<open>${index + 1}\<close>.\<close>

fun string_of_nat :: "nat \<Rightarrow> string" where
  "string_of_nat n =
     (if n < 10 then [''0123456789'' ! n]
      else string_of_nat (n div 10) @ [''0123456789'' ! (n mod 10)])"

declare string_of_nat.simps [simp del]

definition chart_color :: "nat \<Rightarrow> string" where
  "chart_color n = ''hsl(var(--chart-'' @ string_of_nat n @ ''))''"

text \<open>
  The callback of \<^verbatim>\<open>chartData.data.map\<close> in the pie branch (lines 383 to 393), in the
  source's order of evaluation. \<^verbatim>\<open>a || b\<close> evaluates \<open>b\<close> only when \<open>a\<close> is falsy.
\<close>

definition pie_item :: "json \<Rightarrow> json \<Rightarrow> js_error + json" where
  "pie_item chartData item =
     and_then (get_prop chartData ''chartConfig'') (\<lambda>cc.
     and_then (object_entries cc) (\<lambda>es.
     let valueKey = (case es of [] \<Rightarrow> JUndef | (k, c) # rest \<Rightarrow> JStr k) in
     and_then (get_prop chartData ''config'') (\<lambda>cfg.
     and_then (get_prop cfg ''xAxisKey'') (\<lambda>x.
     let segmentKey = (if truthy x then x else JStr ''segment'') in
     and_then (to_string segmentKey) (\<lambda>sk.
     and_then (get_prop item sk) (\<lambda>s1.
     and_then (if truthy s1 then Inr s1
               else and_then (get_prop item ''segment'') (\<lambda>s2.
                    if truthy s2 then Inr s2
                    else and_then (get_prop item ''category'') (\<lambda>s3.
                         if truthy s3 then Inr s3
                         else get_prop item ''name''))) (\<lambda>seg.
     and_then (to_string valueKey) (\<lambda>vk.
     and_then (get_prop item vk) (\<lambda>v1.
     and_then (if truthy v1 then Inr v1 else get_prop item ''value'') (\<lambda>val.
     Inr (JObj [(''segment'', seg), (''value'', val)])))))))))))"

text \<open>
  What the callback returns on a row that is an object, where no read fails (lines 385
  to 392). \<open>field row k\<close> is \<^verbatim>\<open>row[k]\<close>, \<^verbatim>\<open>undefined\<close> when the row has no such
  property. \<open>or_chain\<close> is the value of \<^verbatim>\<open>a || b || c\<close>: the first operand that is
  truthy, the last one when none is. \<open>first_key\<close> is \<^verbatim>\<open>Object.keys(...)[0]\<close> as a
  property name: with no key at all it is \<^verbatim>\<open>undefined\<close>, which names the property
  \<^verbatim>\<open>"undefined"\<close>.
\<close>

definition field :: "json \<Rightarrow> string \<Rightarrow> json" where
  "field row k = (case get_prop row k of Inr v \<Rightarrow> v | Inl e \<Rightarrow> JUndef)"




text \<open>
  One step of the \<^verbatim>\<open>reduce\<close> over \<^verbatim>\<open>Object.entries(chartData.chartConfig)\<close>
  (lines 401 to 408): \<^verbatim>\<open>{...acc, [key]: {...config, color: ...}}\<close>.
\<close>

definition color_step ::
  "(string \<times> json) list \<Rightarrow> (string \<times> json) \<times> nat \<Rightarrow> js_error + (string \<times> json) list" where
  "color_step acc e =
     (case e of ((key, config), index) \<Rightarrow>
        and_then (spread config) (\<lambda>c.
        Inr (obj_set acc key
               (JObj (obj_set c ''color'' (JStr (chart_color (index + 1))))))))"

text \<open>
  The pie branch (lines 381 to 397). \<^verbatim>\<open>chartData\<close> is an alias of
  \<^verbatim>\<open>toolUseContent.input\<close>, so the assignments to \<^verbatim>\<open>chartData.data\<close> and
  \<^verbatim>\<open>chartData.config.xAxisKey\<close> write into the invocation: the result is the chart
  data and the invocation as they are after the two writes.
\<close>

definition pie_transform :: "json \<Rightarrow> json \<Rightarrow> json list \<Rightarrow> js_error + (json \<times> json)" where
  "pie_transform toolUseContent chartData items =
     and_then (map_res (pie_item chartData) items) (\<lambda>rows.
     and_then (set_prop chartData ''data'' (JArr rows)) (\<lambda>chartData1.
     and_then (get_prop chartData1 ''config'') (\<lambda>cfg.
     and_then (set_prop cfg ''xAxisKey'' (JStr ''segment'')) (\<lambda>cfg'.
     and_then (set_prop chartData1 ''config'' cfg') (\<lambda>chartData2.
     and_then (set_prop toolUseContent ''input'' chartData2) (\<lambda>toolUseContent'.
     Inr (chartData2, toolUseContent')))))))"

text \<open>
  Lines 400 to 415: the \<^verbatim>\<open>reduce\<close> over the entries of \<^verbatim>\<open>chartData.chartConfig\<close>
  with their indices, and the returned object
  \<^verbatim>\<open>{...chartData, chartConfig: processedChartConfig}\<close>.
\<close>

definition colorize :: "json \<Rightarrow> js_error + json" where
  "colorize chartData =
     and_then (get_prop chartData ''chartConfig'') (\<lambda>cc.
     and_then (object_entries cc) (\<lambda>es.
     and_then (fold_res color_step [] (zip es [0 ..< length es])) (\<lambda>processedChartConfig.
     and_then (spread chartData) (\<lambda>cd.
     Inr (JObj (obj_set cd ''chartConfig'' (JObj processedChartConfig)))))))"

text \<open>
  \<^verbatim>\<open>processToolResponse\<close> (lines 367 to 416). The second component of the result is
  \<^verbatim>\<open>toolUseContent\<close> as it is after the call: the handler puts it into the response.
\<close>

definition processToolResponse :: "json \<Rightarrow> js_error + (json \<times> json)" where
  "processToolResponse toolUseContent =
     (if \<not> truthy toolUseContent then Inr (JNull, toolUseContent)
      else
        and_then (get_prop toolUseContent ''input'') (\<lambda>chartData.
        and_then (get_prop chartData ''chartType'') (\<lambda>chartType.
        and_then (if \<not> truthy chartType then Inl ChartError
                  else and_then (get_prop chartData ''data'') (\<lambda>d.
                       if \<not> truthy d \<or> \<not> isArray d then Inl ChartError else Inr d)) (\<lambda>d.
        and_then
          (if chartType = JStr ''pie'' then
             (case d of JArr items \<Rightarrow> pie_transform toolUseContent chartData items
              | other \<Rightarrow> Inl Unmodelled)
           else Inr (chartData, toolUseContent)) (\<lambda>(chartData', toolUseContent').
        and_then (colorize chartData') (\<lambda>processedChartData.
        Inr (processedChartData, toolUseContent')))))))"

section \<open>Built-ins the input normalizer calls\<close>

text \<open>
  \<^verbatim>\<open>atob\<close> is the forgiving base64 decoder of the HTML standard: ASCII whitespace is
  dropped, one or two trailing \<^verbatim>\<open>=\<close> are dropped when the length is a multiple of
  four, a length of 1 modulo 4 or a character outside the alphabet fails, and surplus
  bits of the last group are discarded. The result is the list of byte values.
\<close>

definition b64_alphabet :: string where
  "b64_alphabet = ''ABCDEFGHIJKLMNOPQRSTUVWXYZabcdefghijklmnopqrstuvwxyz0123456789+/''"

fun index_of :: "'a \<Rightarrow> 'a list \<Rightarrow> nat option" where
  "index_of c [] = None"
| "index_of c (x # xs) = (if x = c then Some 0 else map_option Suc (index_of c xs))"

fun b64_bytes :: "nat list \<Rightarrow> nat list" where
  "b64_bytes (a # b # c # d # rest) =
     (a * 4 + b div 16) # ((b mod 16) * 16 + c div 4) # ((c mod 4) * 64 + d) # b64_bytes rest"
| "b64_bytes [a, b, c] = [a * 4 + b div 16, (b mod 16) * 16 + c div 4]"
| "b64_bytes [a, b] = [a * 4 + b div 16]"
| "b64_bytes rest = []"

definition is_ascii_whitespace :: "char \<Rightarrow> bool" where
  "is_ascii_whitespace c = (c \<in> set [CHR 0x09, CHR 0x0A, CHR 0x0C, CHR 0x0D, CHR 0x20])"

definition strip_padding :: "string \<Rightarrow> string" where
  "strip_padding d =
     (if length d mod 4 = 0 then
        (if 2 \<le> length d \<and> drop (length d - 2) d = ''=='' then take (length d - 2) d
         else if 1 \<le> length d \<and> drop (length d - 1) d = ''='' then take (length d - 1) d
         else d)
      else d)"

definition atob :: "string \<Rightarrow> js_error + nat list" where
  "atob s =
     (let d = strip_padding (filter (\<lambda>c. \<not> is_ascii_whitespace c) s) in
      if length d mod 4 = 1 then Inl InvalidCharacterError
      else and_then
             (map_res (\<lambda>c. case index_of c b64_alphabet of
                              None \<Rightarrow> Inl InvalidCharacterError
                            | Some i \<Rightarrow> Inr i) d)
             (\<lambda>sextets. Inr (b64_bytes sextets)))"

text \<open>
  \<^verbatim>\<open>decodeURIComponent(escape(s))\<close> reads the bytes of \<open>s\<close> as UTF-8 and throws a
  \<^verbatim>\<open>URIError\<close> when they are no well-formed UTF-8 (overlong forms, surrogates and
  code points above U+10FFFF included). Strings stand for their UTF-8 bytes, so the
  decoded text is the byte list itself.
\<close>

definition cont :: "nat \<Rightarrow> bool" where
  "cont b = (128 \<le> b \<and> b < 192)"

fun utf8_valid :: "nat list \<Rightarrow> bool" where
  "utf8_valid [] = True"
| "utf8_valid [b] = (b < 128)"
| "utf8_valid [b, c1] = (if b < 128 then utf8_valid [c1] else 194 \<le> b \<and> b < 224 \<and> cont c1)"
| "utf8_valid [b, c1, c2] =
     (if b < 128 then utf8_valid [c1, c2]
      else if 194 \<le> b \<and> b < 224 then cont c1 \<and> utf8_valid [c2]
      else 224 \<le> b \<and> b < 240 \<and> cont c2 \<and>
           (if b = 224 then 160 \<le> c1 \<and> c1 < 192
            else if b = 237 then 128 \<le> c1 \<and> c1 < 160 else cont c1))"
| "utf8_valid (b # c1 # c2 # c3 # r) =
     (if b < 128 then utf8_valid (c1 # c2 # c3 # r)
      else if 194 \<le> b \<and> b < 224 then cont c1 \<and> utf8_valid (c2 # c3 # r)
      else if 224 \<le> b \<and> b < 240 then
        cont c2 \<and> utf8_valid (c3 # r) \<and>
        (if b = 224 then 160 \<le> c1 \<and> c1 < 192
         else if b = 237 then 128 \<le> c1 \<and> c1 < 160 else cont c1)
      else 240 \<le> b \<and> b < 245 \<and> cont c2 \<and> cont c3 \<and> utf8_valid r \<and>
           (if b = 240 then 144 \<le> c1 \<and> c1 < 192
            else if b = 244 then 128 \<le> c1 \<and> c1 < 144 else cont c1))"

definition utf8_decode :: "nat list \<Rightarrow> js_error + string" where
  "utf8_decode bytes = (if utf8_valid bytes then Inr (map char_of bytes) else Inl URIError)"

text \<open>\<^verbatim>\<open>v.startsWith(p)\<close>: only a string has the method.\<close>

fun starts_with :: "json \<Rightarrow> string \<Rightarrow> js_error + bool" where
  "starts_with (JStr s) p = Inr (take (length p) s = p)"
| "starts_with (JBuiltin b) p = Inl Unmodelled"
| "starts_with v p = Inl TypeError"

section \<open>The endpoint\<close>

text \<open>
  The three shapes of a response body: \<^verbatim>\<open>{error: s}\<close>; the body of the outer
  \<^verbatim>\<open>catch\<close>, \<^verbatim>\<open>{error: "Bedrock API Error", details: e.message, code: c}\<close>; and the
  object of the successful return, before \<^verbatim>\<open>JSON.stringify\<close>.
\<close>

datatype response_body =
    ErrorBody string
  | ApiErrorBody js_error nat
  | NormalizedBody json

record http_response =
  status :: nat
  body :: response_body

text \<open>Line 155: \<^verbatim>\<open>messages.map((msg) => ({role: msg.role, content: msg.content}))\<close>.\<close>

definition convert_message :: "json \<Rightarrow> js_error + json" where
  "convert_message msg =
     and_then (get_prop msg ''role'') (\<lambda>r.
     and_then (get_prop msg ''content'') (\<lambda>c.
     Inr (JObj [(''role'', r), (''content'', c)])))"

text \<open>\<^verbatim>\<open>messages[messages.length - 1]\<close>: \<^verbatim>\<open>undefined\<close> on the empty array.\<close>

definition last_message :: "json list \<Rightarrow> json" where
  "last_message messages = (if messages = [] then JUndef else last messages)"

text \<open>
  The body of the inner \<^verbatim>\<open>try\<close> (lines 172 to 209): the outbound messages after the
  attachment has been applied.
\<close>

definition attach_file :: "json list \<Rightarrow> json list \<Rightarrow> json \<Rightarrow> js_error + json list" where
  "attach_file messages bedrockMessages fileData =
     and_then (get_prop fileData ''base64'') (\<lambda>base64.
     and_then (get_prop fileData ''mediaType'') (\<lambda>mediaType.
     and_then (get_prop fileData ''isText'') (\<lambda>isText.
     if truthy isText then
       and_then (to_string base64) (\<lambda>b.
       and_then (atob b) (\<lambda>bytes.
       and_then (utf8_decode bytes) (\<lambda>textContent.
       and_then (get_prop fileData ''fileName'') (\<lambda>fileName.
       and_then (to_string fileName) (\<lambda>name.
       and_then (get_prop (last_message messages) ''content'') (\<lambda>original.
       Inr (bedrockMessages[length bedrockMessages - 1 :=
              JObj [(''role'', JStr ''user''),
                    (''content'', JArr
                       [JObj [(''type'', JStr ''text''),
                              (''text'', JStr (''File contents of '' @ name @
                                               [CHR 0x3A, CHR 0x0A, CHR 0x0A] @ textContent))],
                        JObj [(''type'', JStr ''text''), (''text'', original)]])]])))))))
     else
       and_then (starts_with mediaType ''image/'') (\<lambda>image.
       if image then
         and_then (get_prop (last_message messages) ''content'') (\<lambda>original.
         Inr (bedrockMessages[length bedrockMessages - 1 :=
                JObj [(''role'', JStr ''user''),
                      (''content'', JArr
                         [JObj [(''type'', JStr ''image''),
                                (''source'', JObj [(''type'', JStr ''base64''),
                                                   (''media_type'', mediaType),
                                                   (''data'', base64)])],
                          JObj [(''type'', JStr ''text''), (''text'', original)]])]]))
       else Inr bedrockMessages))))"

text \<open>
  Lines 129 to 217, up to the request that goes out: either an early response, or the
  model identifier and the outbound messages. The inner \<^verbatim>\<open>catch\<close> turns every error
  of \<open>attach_file\<close> into the 400 response.
\<close>

definition prepare :: "json \<Rightarrow> js_error + (http_response + json \<times> json list)" where
  "prepare req =
     and_then (get_prop req ''messages'') (\<lambda>messages.
     and_then (get_prop req ''fileData'') (\<lambda>fileData.
     and_then (get_prop req ''model'') (\<lambda>model.
     if \<not> truthy messages \<or> \<not> isArray messages then
       Inr (Inl \<lparr>status = 400, body = ErrorBody ''Messages array is required''\<rparr>)
     else if \<not> truthy model then
       Inr (Inl \<lparr>status = 400, body = ErrorBody ''Model selection is required''\<rparr>)
     else
       and_then (case messages of JArr msgs \<Rightarrow> Inr msgs | other \<Rightarrow> Inl Unmodelled) (\<lambda>msgs.
       and_then (map_res convert_message msgs) (\<lambda>bedrockMessages.
       if truthy fileData then
         and_then (get_prop fileData ''base64'') (\<lambda>base64.
         if \<not> truthy base64 then
           Inr (Inl \<lparr>status = 400, body = ErrorBody ''No file data''\<rparr>)
         else
           (case attach_file msgs bedrockMessages fileData of
              Inl e \<Rightarrow>
                if e = Unmodelled then Inl Unmodelled
                else Inr (Inl \<lparr>status = 400,
                               body = ErrorBody ''Failed to process file content''\<rparr>)
            | Inr bedrockMessages' \<Rightarrow> Inr (Inr (model, bedrockMessages'))))
       else Inr (Inr (model, bedrockMessages)))))))"

text \<open>
  Lines 357 to 435, from the parsed reply to the successful response. The log of lines
  357 to 362 reads \<^verbatim>\<open>response.stop_reason\<close> and the \<^verbatim>\<open>type\<close> of every block, and
  \<^verbatim>\<open>response.content.some\<close> is a function only when the content is an array.
  \<^verbatim>\<open>content.find\<close> gives the first block of the wanted type, or \<^verbatim>\<open>undefined\<close>.
\<close>

definition find_block :: "string \<Rightarrow> json list \<Rightarrow> json" where
  "find_block t blocks =
     (case find (\<lambda>c. get_prop c ''type'' = Inr (JStr t)) blocks of
        None \<Rightarrow> JUndef
      | Some c \<Rightarrow> c)"

definition respond :: "json \<Rightarrow> js_error + http_response" where
  "respond response =
     and_then (get_prop response ''stop_reason'') (\<lambda>stopReason.
     and_then (get_prop response ''content'') (\<lambda>content.
     and_then (case content of JArr blocks \<Rightarrow> Inr blocks | other \<Rightarrow> Inl TypeError) (\<lambda>blocks.
     and_then (map_res (\<lambda>c. get_prop c ''type'') blocks) (\<lambda>contentTypes.
     let toolUseContent = find_block ''tool_use'' blocks;
         textContent = find_block ''text'' blocks
     in
     and_then (if truthy toolUseContent then processToolResponse toolUseContent
               else Inr (JNull, toolUseContent)) (\<lambda>(processedChartData, toolUseContent').
     and_then (if textContent = JUndef then Inr JUndef
               else get_prop textContent ''text'') (\<lambda>text.
     Inr \<lparr>status = 200,
          body = NormalizedBody (JObj
            [(''content'', if truthy text then text else JStr []),
             (''hasToolUse'', JBool (JStr ''tool_use'' \<in> set contentTypes)),
             (''toolUse'', toolUseContent'),
             (''chartData'', processedChartData)])\<rparr>))))))"

text \<open>
  The outer \<^verbatim>\<open>catch\<close> (lines 436 to 468). \<^verbatim>\<open>new Response(body, {status})\<close>
  throws for a status outside 200 to 599 and, the body being a string, for the statuses
  204, 205 and 304 that admit no body: the handler then returns no response of its own,
  which is outside this theory.
\<close>

definition catch_error :: "js_error \<Rightarrow> js_error + http_response" where
  "catch_error e =
     (case e of
        Unmodelled \<Rightarrow> Inl Unmodelled
      | NonError \<Rightarrow> Inr \<lparr>status = 500, body = ErrorBody ''An unknown error occurred''\<rparr>
      | ServiceError (Some c) \<Rightarrow>
          if c = 0 then Inr \<lparr>status = 500, body = ApiErrorBody e 500\<rparr>
          else if 200 \<le> c \<and> c \<le> 599 \<and> c \<notin> set [204, 205, 304]
          then Inr \<lparr>status = c, body = ApiErrorBody e c\<rparr>
          else Inl Unmodelled
      | other \<Rightarrow> Inr \<lparr>status = 500, body = ApiErrorBody e 500\<rparr>)"

text \<open>
  \<^verbatim>\<open>POST\<close>. The parameter \<open>send\<close> stands for the generation service as the handler
  reaches it (lines 343 to 353): \<^verbatim>\<open>bedrock.send\<close> on the model identifier and the
  payload, then the decoding and \<^verbatim>\<open>JSON.parse\<close> of the reply; every field of the
  payload but \<^verbatim>\<open>messages\<close> is a constant of the source. The result is the response
  together with the list of requests that were sent.
\<close>

definition POST ::
  "(json \<Rightarrow> json list \<Rightarrow> js_error + json) \<Rightarrow> json
     \<Rightarrow> js_error + (http_response \<times> (json \<times> json list) list)" where
  "POST send req =
     (case prepare req of
        Inl e \<Rightarrow> and_then (catch_error e) (\<lambda>r. Inr (r, []))
      | Inr (Inl early) \<Rightarrow> Inr (early, [])
      | Inr (Inr (model, bedrockMessages)) \<Rightarrow>
          (case and_then (send model bedrockMessages) respond of
             Inl e \<Rightarrow> and_then (catch_error e) (\<lambda>r. Inr (r, [(model, bedrockMessages)]))
           | Inr r \<Rightarrow> Inr (r, [(model, bedrockMessages)])))"

section \<open>What the specification says, as definitions\<close>

text \<open>
  The definitions of this section are not taken from the source: they restate the
  wording of the specification, and the theorems below compare the handler with them.
\<close>

text \<open>The six chart types of the tool schema (lines 47 to 54 of the source).\<close>

definition chart_type_enum :: "string list" where
  "chart_type_enum = [''bar'', ''multiBar'', ''line'', ''pie'', ''area'', ''stackedArea'']"

fun is_object :: "json \<Rightarrow> bool" where
  "is_object (JObj kvs) = True"
| "is_object v = False"

fun fields :: "json \<Rightarrow> (string \<times> json) list" where
  "fields (JObj kvs) = kvs"
| "fields v = []"

text \<open>
  Colour slots: the entry at position \<open>i\<close> (counted from \<open>n\<close>) keeps its key, its place
  and its fields, and its \<^verbatim>\<open>color\<close> is slot \<open>i + 1\<close>.
\<close>

fun spec_colorize :: "nat \<Rightarrow> (string \<times> json) list \<Rightarrow> (string \<times> json) list" where
  "spec_colorize n [] = []"
| "spec_colorize n ((k, c) # es) =
     (k, JObj (obj_set (fields c) ''color'' (JStr (chart_color (n + 1))))) # spec_colorize (Suc n) es"






text \<open>
  An attachment is applied when file data is present and it is either marked as text
  or its media type starts with \<^verbatim>\<open>image/\<close>.
\<close>

definition attachment_applies :: "json \<Rightarrow> bool" where
  "attachment_applies fileData =
     (truthy fileData \<and>
      (case (get_prop fileData ''isText'', get_prop fileData ''mediaType'') of
         (Inr isText, Inr mediaType) \<Rightarrow>
           truthy isText \<or> starts_with mediaType ''image/'' = Inr True
       | other \<Rightarrow> False))"

section \<open>Example inputs\<close>

definition user_request :: json where
  "user_request =
     JObj [(''messages'', JArr [JObj [(''role'', JStr ''user''),
                                      (''content'', JStr ''Show the AAPL price'')]]),
           (''model'', JStr ''anthropic.claude-3-haiku-20240307-v1:0'')]"

definition stock_invocation :: json where
  "stock_invocation =
     JObj [(''type'', JStr ''tool_use''), (''id'', JStr ''toolu_01''),
           (''name'', JStr ''get_stock_price''),
           (''input'', JObj [(''ticker'', JStr ''AAPL''), (''start'', JStr ''2024-01-01''),
                             (''end'', JStr ''2024-02-01'')])]"

definition reply_with :: "json \<Rightarrow> json" where
  "reply_with block =
     JObj [(''stop_reason'', JStr ''tool_use''),
           (''content'', JArr [JObj [(''type'', JStr ''text''), (''text'', JStr ''Here it is'')],
                               block])]"

definition example_chart_config :: "(string \<times> json) list" where
  "example_chart_config =
     [(''sales'', JObj [(''label'', JStr ''Sales''), (''color'', JStr ''red'')]),
      (''costs'', JObj [(''label'', JStr ''Costs'')])]"

definition example_config :: json where
  "example_config =
     JObj [(''title'', JStr ''Sales''), (''description'', JStr ''By product''),
           (''xAxisKey'', JStr ''product'')]"

definition chart_input :: "string \<Rightarrow> json list \<Rightarrow> json" where
  "chart_input chartType rows =
     JObj [(''chartType'', JStr chartType), (''config'', example_config),
           (''data'', JArr rows), (''chartConfig'', JObj example_chart_config)]"

definition chart_invocation :: "string \<Rightarrow> json list \<Rightarrow> json" where
  "chart_invocation chartType rows =
     JObj [(''type'', JStr ''tool_use''), (''id'', JStr ''toolu_02''),
           (''name'', JStr ''generate_graph_data''),
           (''input'', chart_input chartType rows)]"

definition product_rows :: "json list" where
  "product_rows =
     [JObj [(''product'', JStr ''A''), (''sales'', JNum 450), (''costs'', JNum 280)],
      JObj [(''name'', JStr ''B''), (''sales'', JNum 0), (''value'', JNum 7)]]"

definition text_file :: json where
  "text_file =
     JObj [(''base64'', JStr ''aGVsbG8=''), (''mediaType'', JStr ''text/plain''),
           (''fileName'', JStr ''a.txt''), (''isText'', JBool True)]"

definition file_request :: "string \<Rightarrow> json" where
  "file_request lastRole =
     JObj [(''messages'', JArr [JObj [(''role'', JStr ''user''), (''content'', JStr ''hello'')],
                                JObj [(''role'', JStr lastRole),
                                      (''content'', JStr ''summarize'')]]),
           (''model'', JStr ''anthropic.claude-3-haiku-20240307-v1:0''),
           (''fileData'', text_file)]"

definition file_request_sent :: "json list" where
  "file_request_sent =
     [JObj [(''role'', JStr ''user''), (''content'', JStr ''hello'')],
      JObj [(''role'', JStr ''user''),
            (''content'', JArr
               [JObj [(''type'', JStr ''text''),
                      (''text'', JStr ''File contents of a.txt:\<newline>\<newline>hello'')],
                JObj [(''type'', JStr ''text''), (''text'', JStr ''summarize'')]])]]"

definition normalized_line_chart :: json where
  "normalized_line_chart =
     JObj [(''chartType'', JStr ''line''), (''config'', example_config),
           (''data'', JArr product_rows),
           (''chartConfig'', JObj
              [(''sales'', JObj [(''label'', JStr ''Sales''), (''color'', JStr ''hsl(var(--chart-1))'')]),
               (''costs'', JObj [(''label'', JStr ''Costs''), (''color'', JStr ''hsl(var(--chart-2))'')])])]"

text \<open>A generation service that answers every request with the same parsed reply.\<close>

definition service_replying :: "json \<Rightarrow> json \<Rightarrow> json list \<Rightarrow> js_error + json" where
  "service_replying reply model messages = Inr reply"

text \<open>Reading the outcome of a call of the endpoint.\<close>

definition status_of :: "js_error + (http_response \<times> (json \<times> json list) list) \<Rightarrow> nat option" where
  "status_of r = (case r of Inl e \<Rightarrow> None | Inr (resp, sent) \<Rightarrow> Some (status resp))"

definition body_field :: "string \<Rightarrow> js_error + (http_response \<times> (json \<times> json list) list) \<Rightarrow> json" where
  "body_field k r =
     (case r of
        Inl e \<Rightarrow> JUndef
      | Inr (resp, sent) \<Rightarrow>
          (case body resp of NormalizedBody b \<Rightarrow> field b k | other \<Rightarrow> JUndef))"

definition normalized_pie_chart :: json where
  "normalized_pie_chart =
     JObj [(''chartType'', JStr ''pie''),
           (''config'', JObj [(''title'', JStr ''Sales''), (''description'', JStr ''By product''),
                              (''xAxisKey'', JStr ''segment'')]),
           (''data'', JArr [JObj [(''segment'', JStr ''A''), (''value'', JNum 450)],
                            JObj [(''segment'', JStr ''B''), (''value'', JNum 7)]]),
           (''chartConfig'', JObj
              [(''sales'', JObj [(''label'', JStr ''Sales''), (''color'', JStr ''hsl(var(--chart-1))'')]),
               (''costs'', JObj [(''label'', JStr ''Costs''), (''color'', JStr ''hsl(var(--chart-2))'')])])]"

definition pie_invocation_after :: json where
  "pie_invocation_after =
     JObj [(''type'', JStr ''tool_use''), (''id'', JStr ''toolu_02''),
           (''name'', JStr ''generate_graph_data''),
           (''input'', JObj
              [(''chartType'', JStr ''pie''),
               (''config'', JObj [(''title'', JStr ''Sales''), (''description'', JStr ''By product''),
                                  (''xAxisKey'', JStr ''segment'')]),
               (''data'', JArr [JObj [(''segment'', JStr ''A''), (''value'', JNum 450)],
                                JObj [(''segment'', JStr ''B''), (''value'', JNum 7)]]),
               (''chartConfig'', JObj example_chart_config)])]"

definition normalized_empty_bar_chart :: json where
  "normalized_empty_bar_chart =
     JObj [(''chartType'', JStr ''bar''), (''config'', example_config), (''data'', JArr []),
           (''chartConfig'', JObj
              [(''sales'', JObj [(''label'', JStr ''Sales''), (''color'', JStr ''hsl(var(--chart-1))'')]),
               (''costs'', JObj [(''label'', JStr ''Costs''), (''color'', JStr ''hsl(var(--chart-2))'')])])]"

definition user_request_sent :: "(json \<times> json list) list" where
  "user_request_sent =
     [(JStr ''anthropic.claude-3-haiku-20240307-v1:0'',
       [JObj [(''role'', JStr ''user''), (''content'', JStr ''Show the AAPL price'')]])]"

definition chart_input_with :: "string \<Rightarrow> json \<Rightarrow> json list \<Rightarrow> json" where
  "chart_input_with chartType chartConfig rows =
     JObj [(''chartType'', JStr chartType), (''config'', example_config),
           (''data'', JArr rows), (''chartConfig'', chartConfig)]"

definition chart_invocation_with :: "string \<Rightarrow> json \<Rightarrow> json list \<Rightarrow> json" where
  "chart_invocation_with chartType chartConfig rows =
     JObj [(''type'', JStr ''tool_use''), (''id'', JStr ''toolu_03''),
           (''name'', JStr ''generate_graph_data''),
           (''input'', chart_input_with chartType chartConfig rows)]"

text \<open>The chart the normalizer returns for an invocation.\<close>

definition chart_of :: "json \<Rightarrow> json" where
  "chart_of toolUseContent =
     (case processToolResponse toolUseContent of
        Inl e \<Rightarrow> JUndef
      | Inr (chart, toolUseContent') \<Rightarrow> chart)"

text \<open>A chart configuration written with the key \<^verbatim>\<open>b\<close> before the key \<^verbatim>\<open>1\<close>.\<close>

definition written_config :: "(string \<times> json) list" where
  "written_config =
     [(''b'', JObj [(''label'', JStr ''B'')]), (''1'', JObj [(''label'', JStr ''One'')])]"





section \<open>Lemmas about the value model\<close>

lemma and_then_Inr_iff: "and_then m f = Inr y \<longleftrightarrow> (\<exists>x. m = Inr x \<and> f x = Inr y)"
  by (cases m) auto

lemma map_of_obj_set: "map_of (obj_set kvs k v) = (map_of kvs)(k \<mapsto> v)"
  by (induction kvs) (auto simp: fun_eq_iff)

lemma get_prop_obj_set:
  "get_prop (JObj (obj_set kvs k v)) k' = (if k' = k then Inr v else get_prop (JObj kvs) k')"
  by (simp add: map_of_obj_set)

lemma obj_set_twice: "obj_set (obj_set kvs k v) k w = obj_set kvs k w"
  by (induction kvs) auto

lemma obj_set_fresh: "k \<notin> fst ` set kvs \<Longrightarrow> obj_set kvs k v = kvs @ [(k, v)]"
  by (induction kvs) auto

text \<open>Only an object has a property that is not \<^verbatim>\<open>undefined\<close>.\<close>

lemma get_prop_defined: "get_prop v k = Inr w \<Longrightarrow> w \<noteq> JUndef \<Longrightarrow> is_object v"
  by (cases v) (auto split: if_splits)

section \<open>Colour slots\<close>

lemma keys_spec_colorize: "map fst (spec_colorize n es) = map fst es"
  by (induction n es rule: spec_colorize.induct) auto

lemma objects_spec_colorize: "list_all (\<lambda>e. is_object (snd e)) (spec_colorize n es)"
  by (induction n es rule: spec_colorize.induct) auto

lemma spec_colorize_twice: "spec_colorize n (spec_colorize n es) = spec_colorize n es"
  by (induction n es rule: spec_colorize.induct) (auto simp: obj_set_twice)

lemma spec_colorize_slot:
  "i < length es \<Longrightarrow>
   get_prop (snd (spec_colorize n es ! i)) ''color'' = Inr (JStr (chart_color (n + i + 1)))"
proof (induction n es arbitrary: i rule: spec_colorize.induct)
  case (1 n)
  then show ?case by simp
next
  case (2 n k c es)
  then show ?case by (cases i) (auto simp: map_of_obj_set)
qed

text \<open>
  The \<^verbatim>\<open>reduce\<close> builds the object key by key; on entries with distinct keys that are
  new to the accumulator, it appends the recoloured entries in their order.
\<close>

lemma fold_color_step:
  "distinct (map fst es) \<Longrightarrow> list_all (\<lambda>e. is_object (snd e)) es \<Longrightarrow>
   fst ` set es \<inter> fst ` set acc = {} \<Longrightarrow>
   fold_res color_step acc (zip es [n ..< n + length es]) = Inr (acc @ spec_colorize n es)"
proof (induction es arbitrary: acc n)
  case Nil
  then show ?case by simp
next
  case (Cons e es)
  obtain k c where e: "e = (k, c)" by (cases e)
  from Cons.prems e obtain kvs where c: "c = JObj kvs" by (cases c) auto
  define v where "v = JObj (obj_set kvs ''color'' (JStr (chart_color (n + 1))))"
  have up: "[n ..< n + length ((k, c) # es)] = n # [Suc n ..< Suc n + length es]"
    by (simp add: upt_rec)
  have fresh: "k \<notin> fst ` set acc" using Cons.prems e by auto
  have step: "color_step acc ((k, c), n) = Inr (acc @ [(k, v)])"
    by (simp add: color_step_def c v_def obj_set_fresh [OF fresh])
  have disj: "fst ` set es \<inter> fst ` set (acc @ [(k, v)]) = {}"
    using Cons.prems e by auto
  have ih: "fold_res color_step (acc @ [(k, v)]) (zip es [Suc n ..< Suc n + length es]) =
        Inr ((acc @ [(k, v)]) @ spec_colorize (Suc n) es)"
    using Cons.prems by (intro Cons.IH disj) auto
  have "fold_res color_step acc (zip (e # es) [n ..< n + length (e # es)]) =
        fold_res color_step (acc @ [(k, v)]) (zip es [Suc n ..< Suc n + length es])"
    unfolding e up by (simp only: zip_Cons_Cons fold_res.simps step and_then.simps)
  also have "\<dots> = Inr (acc @ spec_colorize n (e # es))"
    unfolding ih by (simp add: e c v_def)
  finally show ?case .
qed

lemma colorize_object:
  assumes "get_prop (JObj kvs) ''chartConfig'' = Inr (JObj cc)"
    and "distinct (map fst cc)"
    and "list_all (\<lambda>e. is_object (snd e)) cc"
  shows "colorize (JObj kvs) = Inr (JObj (obj_set kvs ''chartConfig'' (JObj (spec_colorize 0 cc))))"
proof -
  have "fold_res color_step [] (zip cc [0 ..< 0 + length cc]) = Inr ([] @ spec_colorize 0 cc)"
    using assms(2,3) by (intro fold_color_step) auto
  then show ?thesis
    using assms(1) by (simp add: colorize_def)
qed

section \<open>The normalizer on charts that are not pie charts\<close>

lemma non_pie_result:
  assumes tu: "get_prop tu ''input'' = Inr cd"
    and ct: "get_prop cd ''chartType'' = Inr ct" "truthy ct" "ct \<noteq> JStr ''pie''"
    and d: "get_prop cd ''data'' = Inr (JArr rows)"
    and cc: "get_prop cd ''chartConfig'' = Inr (JObj cc)" "distinct (map fst cc)"
            "list_all (\<lambda>e. is_object (snd e)) cc"
  shows "processToolResponse tu =
           Inr (JObj (obj_set (fields cd) ''chartConfig'' (JObj (spec_colorize 0 cc))), tu)"
proof -
  from d obtain kvs where cd: "cd = JObj kvs"
    using get_prop_defined [of cd "''data''" "JArr rows"] by (cases cd) auto
  from tu cd have "is_object tu"
    using get_prop_defined [of tu "''input''" cd] by auto
  then have t: "truthy tu" by (cases tu) auto
  have col: "colorize cd = Inr (JObj (obj_set kvs ''chartConfig'' (JObj (spec_colorize 0 cc))))"
    using cc unfolding cd by (rule colorize_object)
  show ?thesis
    using t tu ct d col by (simp add: processToolResponse_def cd)
qed

lemma example_colors:
  "spec_colorize 0 example_chart_config =
     [(''sales'', JObj [(''label'', JStr ''Sales''), (''color'', JStr ''hsl(var(--chart-1))'')]),
      (''costs'', JObj [(''label'', JStr ''Costs''), (''color'', JStr ''hsl(var(--chart-2))'')])]"
  by (simp add: example_chart_config_def chart_color_def string_of_nat.simps)

lemma example_input_fields:
  "get_prop (chart_invocation t rows) ''input'' = Inr (chart_input t rows)"
  "get_prop (chart_input t rows) ''chartType'' = Inr (JStr t)"
  "get_prop (chart_input t rows) ''data'' = Inr (JArr rows)"
  "get_prop (chart_input t rows) ''config'' = Inr example_config"
  "get_prop (chart_input t rows) ''chartConfig'' = Inr (JObj example_chart_config)"
  by (simp_all add: chart_invocation_def chart_input_def)

lemma example_chart_config_valid:
  "distinct (map fst example_chart_config)"
  "list_all (\<lambda>e. is_object (snd e)) example_chart_config"
  by (simp_all add: example_chart_config_def)

text \<open>
  Claim C6. Idempotence: for every valid invocation with a chart type other than pie,
  running the normalizer on its own output (an invocation whose \<^verbatim>\<open>input\<close> is that
  output, keys in the same order) gives the same \<^verbatim>\<open>chartConfig\<close> again: no colour
  slot moves. In fact the whole output is reproduced.
\<close>

theorem renormalizing_is_identity:
  assumes "get_prop tu ''input'' = Inr cd"
    and "get_prop cd ''chartType'' = Inr ct"
    and "truthy ct"
    and "ct \<noteq> JStr ''pie''"
    and "get_prop cd ''data'' = Inr (JArr rows)"
    and "get_prop cd ''chartConfig'' = Inr (JObj cc)"
    and "distinct (map fst cc)"
    and "list_all (\<lambda>e. is_object (snd e)) cc"
    and "processToolResponse tu = Inr (out, tu')"
    and "get_prop tu2 ''input'' = Inr out"
  shows "\<exists>out2. processToolResponse tu2 = Inr (out2, tu2) \<and>
           get_prop out2 ''chartConfig'' = get_prop out ''chartConfig'' \<and> out2 = out"
proof -
  from assms(5) obtain kvs where cd: "cd = JObj kvs"
    using get_prop_defined [of cd "''data''" "JArr rows"] by (cases cd) auto
  define P where "P = spec_colorize 0 cc"
  have first: "processToolResponse tu = Inr (JObj (obj_set kvs ''chartConfig'' (JObj P)), tu)"
    using non_pie_result [OF assms(1-8)] by (simp add: cd P_def)
  with assms(9) have out: "out = JObj (obj_set kvs ''chartConfig'' (JObj P))"
    by simp
  have g1: "get_prop out ''chartType'' = Inr ct"
    using assms(2) unfolding out cd get_prop_obj_set by simp
  have g2: "get_prop out ''data'' = Inr (JArr rows)"
    using assms(5) unfolding out cd get_prop_obj_set by simp
  have g3: "get_prop out ''chartConfig'' = Inr (JObj P)"
    unfolding out get_prop_obj_set by simp
  have g4: "distinct (map fst P)"
    using assms(7) by (simp add: P_def keys_spec_colorize)
  have g5: "list_all (\<lambda>e. is_object (snd e)) P"
    unfolding P_def by (rule objects_spec_colorize)
  have "processToolResponse tu2 =
          Inr (JObj (obj_set (fields out) ''chartConfig'' (JObj (spec_colorize 0 P))), tu2)"
    using assms(10) g1 assms(3,4) g2 g3 g4 g5 by (rule non_pie_result)
  also have "spec_colorize 0 P = P"
    unfolding P_def by (rule spec_colorize_twice)
  also have "obj_set (fields out) ''chartConfig'' (JObj P) = obj_set kvs ''chartConfig'' (JObj P)"
    unfolding out by (simp add: obj_set_twice)
  finally show ?thesis
    by (simp add: out)
qed

lemma line_first_run:
  "processToolResponse (chart_invocation ''line'' product_rows) =
     Inr (normalized_line_chart, chart_invocation ''line'' product_rows)"
  by code_simp

theorem renormalizing_is_identity_witness:
  "\<exists>out2. processToolResponse (JObj [(''input'', normalized_line_chart)]) =
             Inr (out2, JObj [(''input'', normalized_line_chart)]) \<and>
          get_prop out2 ''chartConfig'' = get_prop normalized_line_chart ''chartConfig'' \<and>
          out2 = normalized_line_chart"
proof -
  have h3: "truthy (JStr ''line'')" "JStr ''line'' \<noteq> JStr ''pie''"
    by simp_all
  have h10: "get_prop (JObj [(''input'', normalized_line_chart)]) ''input'' =
               Inr normalized_line_chart"
    by simp
  show ?thesis
    using renormalizing_is_identity [OF example_input_fields(1,2) h3 example_input_fields(3,5)
        example_chart_config_valid line_first_run h10] .
qed

section \<open>The normalizer on pie charts\<close>





section \<open>What a successful normalization went through\<close>

lemma set_prop_Inr: "set_prop v k w = Inr v' \<Longrightarrow> \<exists>kvs. v = JObj kvs \<and> v' = JObj (obj_set kvs k w)"
  by (cases v) auto

lemma pie_transform_Inr:
  assumes "pie_transform tu cd items = Inr (cd2, tu')"
  shows "\<exists>rows' cfg'. get_prop tu' ''input'' = Inr cd2 \<and> is_object cd2 \<and>
           get_prop cd2 ''data'' = Inr (JArr rows') \<and>
           map_res (pie_item cd) items = Inr rows' \<and>
           get_prop cd2 ''config'' = Inr cfg' \<and>
           get_prop cfg' ''xAxisKey'' = Inr (JStr ''segment'')"
  using assms unfolding pie_transform_def and_then_Inr_iff
  by (auto dest!: set_prop_Inr simp: get_prop_obj_set simp del: get_prop.simps)

lemma colorize_Inr:
  assumes "colorize cd = Inr out"
  shows "\<exists>kvs P. cd = JObj kvs \<and> out = JObj (obj_set kvs ''chartConfig'' (JObj P))"
proof (cases cd)
  case (JObj kvs)
  with assms show ?thesis by (auto simp: colorize_def and_then_Inr_iff)
qed (use assms in \<open>auto simp: colorize_def and_then_Inr_iff static_keys_def split: if_splits\<close>)

lemma processToolResponse_Inr:
  assumes "processToolResponse tu = Inr (out, tu')" and "truthy tu"
  shows "\<exists>cd ct rows cd'. get_prop tu ''input'' = Inr cd \<and> get_prop cd ''chartType'' = Inr ct \<and>
           truthy ct \<and> get_prop cd ''data'' = Inr (JArr rows) \<and> colorize cd' = Inr out \<and>
           (if ct = JStr ''pie'' then pie_transform tu cd rows = Inr (cd', tu')
            else cd' = cd \<and> tu' = tu)"
proof -
  from assms obtain cd ct d p where
    a: "get_prop tu ''input'' = Inr cd" "get_prop cd ''chartType'' = Inr ct"
    and b: "(if \<not> truthy ct then Inl ChartError
             else and_then (get_prop cd ''data'') (\<lambda>d.
                  if \<not> truthy d \<or> \<not> isArray d then Inl ChartError else Inr d)) = Inr d"
    and c: "(if ct = JStr ''pie'' then
               (case d of JArr items \<Rightarrow> pie_transform tu cd items | other \<Rightarrow> Inl Unmodelled)
             else Inr (cd, tu)) = Inr p"
    and e: "colorize (fst p) = Inr out" "tu' = snd p"
    by (auto simp: processToolResponse_def and_then_Inr_iff split: prod.splits
        simp del: get_prop.simps)
  from b have t: "truthy ct" and "get_prop cd ''data'' = Inr d" "isArray d"
    by (auto simp: and_then_Inr_iff split: if_splits)
  then obtain rows where d: "d = JArr rows" "get_prop cd ''data'' = Inr (JArr rows)"
    by (cases d) auto
  show ?thesis
    using a t d c e by (cases p) (auto split: if_splits)
qed

section \<open>The pie example\<close>


section \<open>Runs of the examples\<close>

lemma pie_run:
  "processToolResponse (chart_invocation ''pie'' product_rows) =
     Inr (normalized_pie_chart, pie_invocation_after)"
  by code_simp

lemma empty_bar_run:
  "processToolResponse (chart_invocation ''bar'' []) =
     Inr (normalized_empty_bar_chart, chart_invocation ''bar'' [])"
  by code_simp

lemma pie_post:
  "POST (service_replying (reply_with (chart_invocation ''pie'' product_rows))) user_request =
     Inr (\<lparr>status = 200,
           body = NormalizedBody (JObj
             [(''content'', JStr ''Here it is''), (''hasToolUse'', JBool True),
              (''toolUse'', pie_invocation_after), (''chartData'', normalized_pie_chart)])\<rparr>,
          user_request_sent)"
  by code_simp

section \<open>Tools other than the chart tool\<close>

text \<open>
  Claim C1 says that an invocation of a tool other than \<^verbatim>\<open>generate_graph_data\<close>, such
  as \<^verbatim>\<open>get_stock_price\<close>, comes back unchanged in \<^verbatim>\<open>toolUse\<close>, with no chart
  validation of its input and no error because of its shape. The handler never looks at
  the tool's name: it validates the input of every invocation as chart data. A reply
  that invokes \<^verbatim>\<open>get_stock_price\<close> with the input its schema asks for is answered with
  status 500 and the error \<^verbatim>\<open>Invalid chart data structure\<close>.
\<close>

theorem stock_price_invocation_is_rejected:
  "POST (service_replying (reply_with stock_invocation)) user_request =
     Inr (\<lparr>status = 500, body = ApiErrorBody ChartError 500\<rparr>, user_request_sent)"
  by code_simp

section \<open>Structural validation\<close>

lemma and_then_Inl_iff:
  "and_then m f = Inl e \<longleftrightarrow> m = Inl e \<or> (\<exists>x. m = Inr x \<and> f x = Inl e)"
  by (cases m) auto

text \<open>Only the validation throws the chart-data error.\<close>

lemma no_chart_error_prims:
  "get_prop v k \<noteq> Inl ChartError"
  "set_prop v k w \<noteq> Inl ChartError"
  "object_entries v \<noteq> Inl ChartError"
  "spread v \<noteq> Inl ChartError"
  "to_string v \<noteq> Inl ChartError"
  by (cases v; simp)+

lemma map_res_no_chart_error:
  "(\<And>x. f x \<noteq> Inl ChartError) \<Longrightarrow> map_res f xs \<noteq> Inl ChartError"
  by (induction xs) (auto simp: and_then_Inl_iff)

lemma fold_res_no_chart_error:
  "(\<And>a x. f a x \<noteq> Inl ChartError) \<Longrightarrow> fold_res f acc xs \<noteq> Inl ChartError"
  by (induction xs arbitrary: acc) (auto simp: and_then_Inl_iff)

lemma pie_item_no_chart_error: "pie_item cd item \<noteq> Inl ChartError"
  by (auto simp: pie_item_def and_then_Inl_iff Let_def no_chart_error_prims
      simp del: get_prop.simps split: if_splits)

lemma color_step_no_chart_error: "color_step acc e \<noteq> Inl ChartError"
  by (auto simp: color_step_def and_then_Inl_iff no_chart_error_prims split: prod.splits)

lemma pie_transform_no_chart_error: "pie_transform tu cd items \<noteq> Inl ChartError"
  by (auto simp: pie_transform_def and_then_Inl_iff no_chart_error_prims
      map_res_no_chart_error pie_item_no_chart_error simp del: get_prop.simps set_prop.simps)

lemma colorize_no_chart_error: "colorize cd \<noteq> Inl ChartError"
  by (auto simp: colorize_def and_then_Inl_iff no_chart_error_prims
      fold_res_no_chart_error color_step_no_chart_error simp del: get_prop.simps)

text \<open>
  Claim C2, as stated, has the validation reject a chart type outside the six known
  values. The handler tests \<^verbatim>\<open>chartType\<close> for truthiness only: the invocation below,
  with the chart type \<^verbatim>\<open>"scatter"\<close> and an array of rows, is not rejected.
\<close>

theorem unknown_chart_type_counterexample:
  "\<not> (processToolResponse (chart_invocation ''scatter'' product_rows) = Inl ChartError \<longleftrightarrow>
       ''scatter'' \<notin> set chart_type_enum \<or> \<not> isArray (JArr product_rows))"
  by code_simp

text \<open>
  Claim C2, amended. For every invocation whose \<^verbatim>\<open>input\<close> is neither \<^verbatim>\<open>null\<close> nor
  missing, the normalizer fails with the chart-data error if and only if
  \<^verbatim>\<open>input.chartType\<close> is falsy (missing, \<^verbatim>\<open>null\<close>, \<^verbatim>\<open>false\<close>, zero or the empty
  string) or \<^verbatim>\<open>input.data\<close> is not an array. Any truthy chart type passes, one of
  the six or not.
\<close>

theorem validation_fails_iff:
  assumes "truthy tu"
    and "get_prop tu ''input'' = Inr cd"
    and "get_prop cd ''chartType'' = Inr ct"
    and "get_prop cd ''data'' = Inr d"
  shows "processToolResponse tu = Inl ChartError \<longleftrightarrow> \<not> truthy ct \<or> \<not> isArray d"
proof (cases "truthy ct \<and> isArray d")
  case False
  then show ?thesis
    using assms by (auto simp: processToolResponse_def)
next
  case True
  then obtain rows where d: "d = JArr rows" by (cases d) auto
  have "processToolResponse tu \<noteq> Inl ChartError"
    using assms True
    by (auto simp: processToolResponse_def d and_then_Inl_iff pie_transform_no_chart_error
        colorize_no_chart_error simp del: get_prop.simps split: prod.splits)
  with True show ?thesis by simp
qed

theorem validation_fails_iff_witness:
  "(processToolResponse (chart_invocation ''scatter'' product_rows) = Inl ChartError \<longleftrightarrow>
      \<not> truthy (JStr ''scatter'') \<or> \<not> isArray (JArr product_rows)) \<and>
   (processToolResponse stock_invocation = Inl ChartError \<longleftrightarrow>
      \<not> truthy JUndef \<or> \<not> isArray JUndef)"
proof -
  have a: "truthy (chart_invocation ''scatter'' product_rows)" "truthy stock_invocation"
    by (simp_all add: chart_invocation_def stock_invocation_def)
  have b: "get_prop stock_invocation ''input'' =
             Inr (JObj [(''ticker'', JStr ''AAPL''), (''start'', JStr ''2024-01-01''),
                        (''end'', JStr ''2024-02-01'')])"
    by (simp add: stock_invocation_def)
  have c: "get_prop (JObj [(''ticker'', JStr ''AAPL''), (''start'', JStr ''2024-01-01''),
                           (''end'', JStr ''2024-02-01'')]) ''chartType'' = Inr JUndef"
          "get_prop (JObj [(''ticker'', JStr ''AAPL''), (''start'', JStr ''2024-01-01''),
                           (''end'', JStr ''2024-02-01'')]) ''data'' = Inr JUndef"
    by (simp_all add: object_prototype_keys_def)
  show ?thesis
    using validation_fails_iff [OF a(1) example_input_fields(1,2,3)]
      validation_fails_iff [OF a(2) b c]
    by blast
qed

section \<open>What the normalizer does to the invocation\<close>

lemma colorize_keeps:
  "colorize cd = Inr out \<Longrightarrow> k \<noteq> ''chartConfig'' \<Longrightarrow> get_prop out k = get_prop cd k"
  by (auto dest!: colorize_Inr simp: get_prop_obj_set simp del: get_prop.simps)

lemma normalizer_writes:
  assumes "processToolResponse tu = Inr (out, tu')"
    and "get_prop tu ''input'' = Inr cd"
    and "get_prop cd ''chartType'' = Inr ct"
  shows "if ct = JStr ''pie''
         then \<exists>cd' cfg'. get_prop tu' ''input'' = Inr cd' \<and>
                get_prop cd' ''data'' = get_prop out ''data'' \<and>
                get_prop cd' ''config'' = Inr cfg' \<and>
                get_prop cfg' ''xAxisKey'' = Inr (JStr ''segment'')
         else tu' = tu"
proof -
  have t: "truthy tu"
  proof (rule ccontr)
    assume "\<not> truthy tu"
    with assms(2) have "cd = JUndef" by (cases tu) (auto split: if_splits)
    with assms(3) show False by simp
  qed
  from processToolResponse_Inr [OF assms(1) t] assms(2,3) obtain rows cd' where
    col: "colorize cd' = Inr out"
    and br: "if ct = JStr ''pie'' then pie_transform tu cd rows = Inr (cd', tu')
             else cd' = cd \<and> tu' = tu"
    by auto
  have keep: "get_prop out ''data'' = get_prop cd' ''data''"
    using col by (rule colorize_keeps) simp
  show ?thesis
  proof (cases "ct = JStr ''pie''")
    case True
    with br have "pie_transform tu cd rows = Inr (cd', tu')" by simp
    from pie_transform_Inr [OF this] keep True show ?thesis by auto
  next
    case False
    with br show ?thesis by simp
  qed
qed

lemma normalized_has_data_array:
  assumes "processToolResponse tu = Inr (out, tu')" and "truthy tu"
  shows "\<exists>rows. get_prop out ''data'' = Inr (JArr rows)"
proof -
  from processToolResponse_Inr [OF assms] obtain cd ct rows cd' where
    d: "get_prop cd ''data'' = Inr (JArr rows)" and col: "colorize cd' = Inr out"
    and br: "if ct = JStr ''pie'' then pie_transform tu cd rows = Inr (cd', tu')
             else cd' = cd \<and> tu' = tu"
    by blast
  have keep: "get_prop out ''data'' = get_prop cd' ''data''"
    using col by (rule colorize_keeps) simp
  show ?thesis
  proof (cases "ct = JStr ''pie''")
    case True
    with br have "pie_transform tu cd rows = Inr (cd', tu')" by simp
    from pie_transform_Inr [OF this] keep show ?thesis by auto
  next
    case False
    with br d keep show ?thesis by auto
  qed
qed

section \<open>Validation of the request\<close>

lemma map_res_length: "map_res f xs = Inr ys \<Longrightarrow> length ys = length xs"
  by (induction xs arbitrary: ys) (auto simp: and_then_Inr_iff)

lemma get_prop_static:
  "get_prop v k = Inr w \<Longrightarrow> k' \<in> set static_keys \<Longrightarrow> \<exists>w'. get_prop v k' = Inr w'"
  by (cases v) (auto split: if_splits)

lemma static_key_names:
  "''messages'' \<in> set static_keys" "''fileData'' \<in> set static_keys"
  "''model'' \<in> set static_keys" "''mediaType'' \<in> set static_keys"
  "''base64'' \<in> set static_keys" "''isText'' \<in> set static_keys"
  by (simp_all add: static_keys_def)

lemma isArray_truthy: "isArray v \<Longrightarrow> truthy v"
  by (cases v) auto

lemma POST_early:
  "prepare req = Inr (Inl resp) \<Longrightarrow> POST send req = Inr (resp, [])"
  by (simp add: POST_def)

text \<open>
  Claim C7, as stated, promises the body \<^verbatim>\<open>{error: "Model selection is required"}\<close>
  whenever the model is missing. The handler tests \<^verbatim>\<open>messages\<close> first: the body
  \<^verbatim>\<open>{}\<close>, with neither field, is answered with \<^verbatim>\<open>Messages array is required\<close>. And
  the body \<^verbatim>\<open>null\<close> cannot be destructured: it is answered with status 500.
\<close>

theorem missing_model_counterexample:
  "get_prop (JObj []) ''model'' = Inr JUndef \<and>
   POST (service_replying JNull) (JObj []) =
     Inr (\<lparr>status = 400, body = ErrorBody ''Messages array is required''\<rparr>, []) \<and>
   ErrorBody ''Messages array is required'' \<noteq> ErrorBody ''Model selection is required'' \<and>
   POST (service_replying JNull) JNull =
     Inr (\<lparr>status = 500, body = ApiErrorBody TypeError 500\<rparr>, [])"
  by code_simp

text \<open>
  Claim C7, amended. For every request body other than \<^verbatim>\<open>null\<close>: when \<^verbatim>\<open>messages\<close>
  is missing or no array the response is status 400 with
  \<^verbatim>\<open>{error: "Messages array is required"}\<close>; when \<^verbatim>\<open>messages\<close> is an array and the
  model is missing (or falsy) the response is status 400 with
  \<^verbatim>\<open>{error: "Model selection is required"}\<close>; in both cases nothing is sent to the
  generation service.
\<close>

theorem early_validation:
  assumes "get_prop req ''messages'' = Inr m"
    and "get_prop req ''model'' = Inr md"
    and "\<not> isArray m \<or> \<not> truthy md"
  shows "POST send req =
           Inr (\<lparr>status = 400,
                 body = ErrorBody (if isArray m then ''Model selection is required''
                                   else ''Messages array is required'')\<rparr>, [])"
proof -
  obtain fd where fd: "get_prop req ''fileData'' = Inr fd"
    using get_prop_static [OF assms(1) static_key_names(2)] by blast
  have "prepare req =
          Inr (Inl \<lparr>status = 400,
                 body = ErrorBody (if isArray m then ''Model selection is required''
                                   else ''Messages array is required'')\<rparr>)"
    using assms fd by (auto simp: prepare_def isArray_truthy)
  then show ?thesis by (rule POST_early)
qed

theorem early_validation_witness:
  "POST (service_replying JNull) (JObj [(''model'', JStr ''m'')]) =
     Inr (\<lparr>status = 400, body = ErrorBody ''Messages array is required''\<rparr>, []) \<and>
   POST (service_replying JNull) (JObj [(''messages'', JArr [])]) =
     Inr (\<lparr>status = 400, body = ErrorBody ''Model selection is required''\<rparr>, [])"
proof -
  have a: "get_prop (JObj [(''model'', JStr ''m'')]) ''messages'' = Inr JUndef"
          "get_prop (JObj [(''model'', JStr ''m'')]) ''model'' = Inr (JStr ''m'')"
          "\<not> isArray JUndef \<or> \<not> truthy (JStr ''m'')"
    by (simp_all add: object_prototype_keys_def)
  have b: "get_prop (JObj [(''messages'', JArr [])]) ''messages'' = Inr (JArr [])"
          "get_prop (JObj [(''messages'', JArr [])]) ''model'' = Inr JUndef"
          "\<not> isArray (JArr []) \<or> \<not> truthy JUndef"
    by (simp_all add: object_prototype_keys_def)
  show ?thesis
    using early_validation [OF a, of "service_replying JNull"]
      early_validation [OF b, of "service_replying JNull"]
    by simp
qed

section \<open>The input normalizer\<close>

lemma file_request_prepared:
  "prepare (file_request ''user'') =
     Inr (Inr (JStr ''anthropic.claude-3-haiku-20240307-v1:0'', file_request_sent))"
  "prepare (file_request ''assistant'') =
     Inr (Inr (JStr ''anthropic.claude-3-haiku-20240307-v1:0'', file_request_sent))"
  by code_simp+

lemma hello_decoded: "and_then (atob ''aGVsbG8='') utf8_decode = Inr ''hello''"
  by code_simp

lemma last_message_nonempty: "get_prop (last_message msgs) k = Inr c \<Longrightarrow> msgs \<noteq> []"
  by (auto simp: last_message_def)

lemma file_request_fields:
  "get_prop (file_request r) ''messages'' =
     Inr (JArr [JObj [(''role'', JStr ''user''), (''content'', JStr ''hello'')],
                JObj [(''role'', JStr r), (''content'', JStr ''summarize'')]])"
  "get_prop (file_request r) ''model'' = Inr (JStr ''anthropic.claude-3-haiku-20240307-v1:0'')"
  "get_prop (file_request r) ''fileData'' = Inr text_file"
  "get_prop text_file ''isText'' = Inr (JBool True)"
  "get_prop text_file ''base64'' = Inr (JStr ''aGVsbG8='')"
  "get_prop text_file ''fileName'' = Inr (JStr ''a.txt'')"
  by (simp_all add: file_request_def text_file_def)

text \<open>The request that goes out carries the prepared messages.\<close>

lemma POST_sends_prepared:
  "prepare req = Inr (Inr (model, msgs)) \<Longrightarrow> POST send req = Inr (r, sent) \<Longrightarrow>
   sent = [(model, msgs)]"
  by (auto simp: POST_def and_then_Inr_iff split: sum.splits)

text \<open>
  Claim C8. For every request that passes validation and carries a text attachment
  (\<^verbatim>\<open>isText\<close> truthy, a non-empty \<^verbatim>\<open>base64\<close> that decodes to the text \<open>T\<close>, file
  name \<open>N\<close>), the last outbound message is rewritten: its content is exactly two text
  blocks, first \<^verbatim>\<open>File contents of N:\<close>, an empty line and \<open>T\<close>, then the content \<open>M\<close>
  of the original last message; the messages before it are the converted originals.
  With base64 of \<^verbatim>\<open>hello\<close>, the name \<^verbatim>\<open>a.txt\<close> and the last message
  \<^verbatim>\<open>summarize\<close> the blocks are \<^verbatim>\<open>File contents of a.txt:\n\nhello\<close> and
  \<^verbatim>\<open>summarize\<close>.
\<close>

theorem text_attachment_rewrites_last_message:
  assumes "get_prop req ''messages'' = Inr (JArr msgs)"
    and "get_prop req ''model'' = Inr model"
    and "truthy model"
    and "get_prop req ''fileData'' = Inr fd"
    and "get_prop fd ''isText'' = Inr isText"
    and "truthy isText"
    and "get_prop fd ''base64'' = Inr b64"
    and "truthy b64"
    and "to_string b64 = Inr b"
    and "and_then (atob b) utf8_decode = Inr T"
    and "get_prop fd ''fileName'' = Inr fn"
    and "to_string fn = Inr N"
    and "map_res convert_message msgs = Inr bms"
    and "msgs \<noteq> []"
    and "get_prop (last msgs) ''content'' = Inr M"
  shows "prepare req =
           Inr (Inr (model, butlast bms @
             [JObj [(''role'', JStr ''user''),
                    (''content'', JArr
                       [JObj [(''type'', JStr ''text''),
                              (''text'', JStr (''File contents of '' @ N @ '':\<newline>\<newline>'' @ T))],
                        JObj [(''type'', JStr ''text''), (''text'', M)]])]]))"
proof -
  have fdt: "truthy fd"
    using assms(5,6) by (cases fd) (auto split: if_splits)
  obtain mt where mt: "get_prop fd ''mediaType'' = Inr mt"
    using get_prop_static [OF assms(5) static_key_names(4)] by blast
  from assms(10) obtain bytes where dec: "atob b = Inr bytes" "utf8_decode bytes = Inr T"
    by (auto simp: and_then_Inr_iff)
  have lm: "get_prop (last_message msgs) ''content'' = Inr M"
    using assms(14,15) by (simp add: last_message_def)
  have ne: "bms \<noteq> []"
    using map_res_length [OF assms(13)] assms(14) by auto
  have upd: "\<And>m. bms[length bms - Suc 0 := m] = butlast bms @ [m]"
    using ne by (induction bms rule: rev_induct) auto
  have at: "attach_file msgs bms fd = Inr (butlast bms @
             [JObj [(''role'', JStr ''user''),
                    (''content'', JArr
                       [JObj [(''type'', JStr ''text''),
                              (''text'', JStr (''File contents of '' @ N @ '':\<newline>\<newline>'' @ T))],
                        JObj [(''type'', JStr ''text''), (''text'', M)]])]])"
    using assms(5,6,7,9,11,12) mt dec lm
    by (simp add: attach_file_def upd del: get_prop.simps)
  show ?thesis
    using assms(1,2,3,4,7,8,13) fdt at
    by (simp add: prepare_def del: get_prop.simps)
qed

theorem text_attachment_rewrites_last_message_witness:
  "prepare (file_request ''user'') =
     Inr (Inr (JStr ''anthropic.claude-3-haiku-20240307-v1:0'',
       [JObj [(''role'', JStr ''user''), (''content'', JStr ''hello'')],
        JObj [(''role'', JStr ''user''),
              (''content'', JArr
                 [JObj [(''type'', JStr ''text''),
                        (''text'', JStr ''File contents of a.txt:\<newline>\<newline>hello'')],
                  JObj [(''type'', JStr ''text''), (''text'', JStr ''summarize'')]])]]))"
proof -
  have t: "truthy (JStr ''anthropic.claude-3-haiku-20240307-v1:0'')" "truthy (JBool True)"
      "truthy (JStr ''aGVsbG8='')" "to_string (JStr ''aGVsbG8='') = Inr ''aGVsbG8=''"
      "to_string (JStr ''a.txt'') = Inr ''a.txt''"
    by simp_all
  have c: "map_res convert_message
             [JObj [(''role'', JStr ''user''), (''content'', JStr ''hello'')],
              JObj [(''role'', JStr ''user''), (''content'', JStr ''summarize'')]] =
           Inr [JObj [(''role'', JStr ''user''), (''content'', JStr ''hello'')],
                JObj [(''role'', JStr ''user''), (''content'', JStr ''summarize'')]]"
    by (simp add: convert_message_def)
  have l: "[JObj [(''role'', JStr ''user''), (''content'', JStr ''hello'')],
            JObj [(''role'', JStr ''user''), (''content'', JStr ''summarize'')]] \<noteq> []"
      "get_prop (last [JObj [(''role'', JStr ''user''), (''content'', JStr ''hello'')],
            JObj [(''role'', JStr ''user''), (''content'', JStr ''summarize'')]]) ''content'' =
         Inr (JStr ''summarize'')"
    by simp_all
  show ?thesis
    using text_attachment_rewrites_last_message [OF file_request_fields(1,2) t(1)
        file_request_fields(3,4) t(2) file_request_fields(5) t(3,4) hello_decoded
        file_request_fields(6) t(5) c l]
    by simp
qed

lemma update_last:
  "xs \<noteq> [] \<Longrightarrow> xs[length xs - Suc 0 := m] = butlast xs @ [m]"
  by (induction xs rule: rev_induct) auto

lemma attach_file_Inr:
  assumes "attach_file msgs bms fd = Inr out" and "length bms = length msgs"
  shows "if attachment_applies fd
         then \<exists>c. out = butlast bms @ [JObj [(''role'', JStr ''user''), (''content'', c)]]
         else out = bms"
proof -
  from assms(1) obtain b64 mt it where
    g: "get_prop fd ''base64'' = Inr b64" "get_prop fd ''mediaType'' = Inr mt"
       "get_prop fd ''isText'' = Inr it"
    by (auto simp: attach_file_def and_then_Inr_iff simp del: get_prop.simps)
  have fdt: "truthy fd \<or> (\<not> truthy it \<and> mt = JUndef)"
    using g by (cases fd) (auto split: if_splits)
  show ?thesis
  proof (cases "truthy it")
    case True
    with fdt have ap: "attachment_applies fd"
      using g by (auto simp: attachment_applies_def)
    from assms(1) True g obtain c where
      lm: "get_prop (last_message msgs) ''content'' = Inr c"
      and out: "\<exists>t. out = bms[length bms - 1 :=
             JObj [(''role'', JStr ''user''), (''content'', JArr
                     [JObj [(''type'', JStr ''text''), (''text'', t)],
                      JObj [(''type'', JStr ''text''), (''text'', c)]])]]"
      by (auto simp: attach_file_def and_then_Inr_iff simp del: get_prop.simps)
    from lm have "msgs \<noteq> []" by (rule last_message_nonempty)
    with assms(2) have "bms \<noteq> []" by auto
    with out ap show ?thesis by (auto simp: update_last)
  next
    case False
    from assms(1) False g obtain image where
      im: "starts_with mt ''image/'' = Inr image"
      by (auto simp: attach_file_def and_then_Inr_iff simp del: get_prop.simps)
    show ?thesis
    proof (cases image)
      case True
      with im have "mt \<noteq> JUndef" by auto
      with fdt False have "truthy fd" by simp
      with im True g have ap: "attachment_applies fd"
        by (auto simp: attachment_applies_def)
      from assms(1) False g im True obtain c where
        lm: "get_prop (last_message msgs) ''content'' = Inr c"
        and out: "\<exists>b. out = bms[length bms - 1 :=
               JObj [(''role'', JStr ''user''), (''content'', JArr
                       [b, JObj [(''type'', JStr ''text''), (''text'', c)]])]]"
        by (auto simp: attach_file_def and_then_Inr_iff simp del: get_prop.simps)
      from lm have "msgs \<noteq> []" by (rule last_message_nonempty)
      with assms(2) have "bms \<noteq> []" by auto
      with out ap show ?thesis by (auto simp: update_last)
    next
      case no: False
      with im False g have "\<not> attachment_applies fd"
        by (auto simp: attachment_applies_def)
      moreover from assms(1) False g im no have "out = bms"
        by (auto simp: attach_file_def and_then_Inr_iff simp del: get_prop.simps)
      ultimately show ?thesis by simp
    qed
  qed
qed

lemma map_res_list_all2: "map_res f xs = Inr ys \<Longrightarrow> list_all2 (\<lambda>x y. f x = Inr y) xs ys"
  by (induction xs arbitrary: ys) (auto simp: and_then_Inr_iff)

lemma convert_message_role:
  "convert_message msg = Inr m \<Longrightarrow> get_prop m ''role'' = get_prop msg ''role''"
  by (auto simp: convert_message_def and_then_Inr_iff)

text \<open>
  Claim C10. Whenever a file attachment is applied (file data that is marked as text,
  or whose media type starts with \<^verbatim>\<open>image/\<close>), the rewritten last outbound message
  has the role \<^verbatim>\<open>"user"\<close>, whatever the role of the original last message was, and
  the messages before it are the converted originals. When no attachment is applied the
  outbound messages are the converted originals, each with the role of its original.
\<close>

theorem rewritten_role_is_user:
  assumes "prepare req = Inr (Inr (model, out))"
    and "get_prop req ''messages'' = Inr (JArr msgs)"
    and "get_prop req ''fileData'' = Inr fd"
  shows "\<exists>bms. map_res convert_message msgs = Inr bms \<and>
           list_all2 (\<lambda>msg m. get_prop m ''role'' = get_prop msg ''role'') msgs bms \<and>
           (if attachment_applies fd
            then out \<noteq> [] \<and> butlast out = butlast bms \<and>
                 get_prop (last out) ''role'' = Inr (JStr ''user'')
            else out = bms)"
proof -
  from assms obtain bms where
    bms: "map_res convert_message msgs = Inr bms"
    and br: "if truthy fd then attach_file msgs bms fd = Inr out else out = bms"
    by (auto simp: prepare_def and_then_Inr_iff simp del: get_prop.simps
        split: if_splits sum.splits)
  have len: "length bms = length msgs"
    using bms by (rule map_res_length)
  have roles: "list_all2 (\<lambda>msg m. get_prop m ''role'' = get_prop msg ''role'') msgs bms"
    using map_res_list_all2 [OF bms]
    by (rule list_all2_mono) (rule convert_message_role)
  show ?thesis
  proof (cases "truthy fd")
    case True
    with br have "attach_file msgs bms fd = Inr out" by simp
    from attach_file_Inr [OF this len] bms roles show ?thesis
      by (auto simp: butlast_append)
  next
    case False
    then have "\<not> attachment_applies fd" by (simp add: attachment_applies_def)
    with br False bms roles show ?thesis by simp
  qed
qed

theorem rewritten_role_is_user_witness:
  "attachment_applies text_file \<and>
   get_prop (last [JObj [(''role'', JStr ''user''), (''content'', JStr ''hello'')],
                   JObj [(''role'', JStr ''assistant''), (''content'', JStr ''summarize'')]])
     ''role'' = Inr (JStr ''assistant'') \<and>
   get_prop (last file_request_sent) ''role'' = Inr (JStr ''user'')"
proof -
  have ap: "attachment_applies text_file"
    by (simp add: attachment_applies_def text_file_def)
  from rewritten_role_is_user [OF file_request_prepared(2) file_request_fields(1,3)] ap
  have "get_prop (last file_request_sent) ''role'' = Inr (JStr ''user'')"
    by auto
  with ap show ?thesis by simp
qed

section \<open>The response returned to the caller\<close>

lemma respond_Inr:
  assumes "respond response = Inr r"
  shows "\<exists>blocks text has cdta tu'.
           get_prop response ''content'' = Inr (JArr blocks) \<and> status r = 200 \<and>
           body r = NormalizedBody (JObj [(''content'', text), (''hasToolUse'', has),
                                          (''toolUse'', tu'), (''chartData'', cdta)]) \<and>
           (if truthy (find_block ''tool_use'' blocks)
            then processToolResponse (find_block ''tool_use'' blocks) = Inr (cdta, tu')
            else cdta = JNull \<and> tu' = find_block ''tool_use'' blocks)"
proof -
  from assms obtain content blocks p where
    c: "get_prop response ''content'' = Inr content"
       "(case content of JArr blocks \<Rightarrow> Inr blocks | other \<Rightarrow> Inl TypeError) = Inr blocks"
    and p: "(if truthy (find_block ''tool_use'' blocks)
             then processToolResponse (find_block ''tool_use'' blocks)
             else Inr (JNull, find_block ''tool_use'' blocks)) = Inr p"
    and r: "\<exists>text has. r = \<lparr>status = 200, body = NormalizedBody (JObj
              [(''content'', text), (''hasToolUse'', has),
               (''toolUse'', snd p), (''chartData'', fst p)])\<rparr>"
    by (auto simp: respond_def and_then_Inr_iff Let_def simp del: get_prop.simps
        split: prod.splits)
  from c have "content = JArr blocks"
    by (cases content) auto
  with c p r show ?thesis
    by (cases p) (auto split: if_splits simp del: get_prop.simps)
qed

lemma catch_error_body: "catch_error e = Inr r \<Longrightarrow> body r \<noteq> NormalizedBody b"
  by (auto simp: catch_error_def split: js_error.splits option.splits if_splits)

lemma attach_early:
  "(case a of Inl e \<Rightarrow> if e = Unmodelled then Inl Unmodelled
                     else Inr (Inl \<lparr>status = 400, body = ErrorBody s\<rparr>)
    | Inr ms \<Rightarrow> Inr (Inr (model, ms))) = Inr (Inl resp) \<Longrightarrow>
   resp = \<lparr>status = 400, body = ErrorBody s\<rparr>"
  by (cases a) (auto split: if_split_asm)

lemma prepare_early_body:
  assumes "prepare req = Inr (Inl resp)"
  shows "body resp \<noteq> NormalizedBody b"
proof -
  from assms obtain s where "resp = \<lparr>status = 400, body = ErrorBody s\<rparr>"
    by (auto simp: prepare_def and_then_Inr_iff simp del: get_prop.simps
        split: if_split_asm dest!: attach_early)
  then show ?thesis by simp
qed

lemma POST_normalized:
  assumes "POST send req = Inr (r, sent)" and "body r = NormalizedBody b"
  shows "\<exists>response. respond response = Inr r"
  using assms
  by (auto simp: POST_def and_then_Inr_iff split: sum.splits dest: catch_error_body prepare_early_body)

lemma empty_bar_post:
  "POST (service_replying (reply_with (chart_invocation ''bar'' []))) user_request =
     Inr (\<lparr>status = 200,
           body = NormalizedBody (JObj
             [(''content'', JStr ''Here it is''), (''hasToolUse'', JBool True),
              (''toolUse'', chart_invocation ''bar'' []),
              (''chartData'', normalized_empty_bar_chart)])\<rparr>,
          user_request_sent)"
  by code_simp

lemma pie_respond:
  "respond (reply_with (chart_invocation ''pie'' product_rows)) =
     Inr \<lparr>status = 200,
          body = NormalizedBody (JObj
            [(''content'', JStr ''Here it is''), (''hasToolUse'', JBool True),
             (''toolUse'', pie_invocation_after), (''chartData'', normalized_pie_chart)])\<rparr>"
  by code_simp

lemma pie_reply_blocks:
  "get_prop (reply_with (chart_invocation ''pie'' product_rows)) ''content'' =
     Inr (JArr [JObj [(''type'', JStr ''text''), (''text'', JStr ''Here it is'')],
                chart_invocation ''pie'' product_rows])"
  "find_block ''tool_use'' [JObj [(''type'', JStr ''text''), (''text'', JStr ''Here it is'')],
                chart_invocation ''pie'' product_rows] = chart_invocation ''pie'' product_rows"
  by (simp_all add: reply_with_def find_block_def chart_invocation_def)

text \<open>
  Claim C9, as stated, has every chart the pipeline returns carry a non-empty
  \<^verbatim>\<open>data\<close> array. The validation rejects a \<^verbatim>\<open>data\<close> that is falsy or no array, and
  the empty array is neither: a bar chart with no rows is returned with status 200.
\<close>

theorem empty_data_counterexample:
  "status_of (POST (service_replying (reply_with (chart_invocation ''bar'' []))) user_request) =
     Some 200 \<and>
   body_field ''chartData'' (POST (service_replying (reply_with (chart_invocation ''bar'' [])))
      user_request) = normalized_empty_bar_chart \<and>
   normalized_empty_bar_chart \<noteq> JNull \<and>
   field normalized_empty_bar_chart ''data'' = JArr []"
  by code_simp

text \<open>
  Claim C9, amended. Every chart the pipeline returns to the caller (a successful
  response whose \<^verbatim>\<open>chartData\<close> is not \<^verbatim>\<open>null\<close>) has a \<^verbatim>\<open>data\<close> field that is an
  array; the array may be empty.
\<close>

theorem returned_chart_has_data_array:
  assumes "POST send req = Inr (r, sent)"
    and "body r = NormalizedBody b"
    and "get_prop b ''chartData'' = Inr chart"
    and "chart \<noteq> JNull"
  shows "\<exists>rows. get_prop chart ''data'' = Inr (JArr rows)"
proof -
  from POST_normalized [OF assms(1,2)] obtain response where "respond response = Inr r"
    by blast
  from respond_Inr [OF this] assms(2,3,4) obtain blocks tu' where
    "truthy (find_block ''tool_use'' blocks)"
    "processToolResponse (find_block ''tool_use'' blocks) = Inr (chart, tu')"
    by (auto split: if_splits)
  then show ?thesis
    using normalized_has_data_array by blast
qed

theorem returned_chart_has_data_array_witness:
  "\<exists>rows. get_prop normalized_empty_bar_chart ''data'' = Inr (JArr rows)"
proof -
  have "normalized_empty_bar_chart \<noteq> JNull"
    by (simp add: normalized_empty_bar_chart_def)
  then show ?thesis
    using returned_chart_has_data_array [OF empty_bar_post, of _ normalized_empty_bar_chart]
    by simp
qed

text \<open>
  Claim C3, as stated, has the normalizer leave the invocation as it was, so that the
  \<^verbatim>\<open>toolUse\<close> of the response is the untransformed input. For a pie chart the
  handler assigns to \<^verbatim>\<open>chartData.data\<close> and \<^verbatim>\<open>chartData.config.xAxisKey\<close>, and
  \<^verbatim>\<open>chartData\<close> is the invocation's own \<^verbatim>\<open>input\<close>: the \<^verbatim>\<open>toolUse\<close> of the
  response carries the transformed rows and the new axis key.
\<close>

theorem toolUse_is_overwritten_counterexample:
  "status_of (POST (service_replying (reply_with (chart_invocation ''pie'' product_rows)))
                user_request) = Some 200 \<and>
   body_field ''toolUse'' (POST (service_replying (reply_with (chart_invocation ''pie'' product_rows)))
                user_request) = pie_invocation_after \<and>
   pie_invocation_after \<noteq> chart_invocation ''pie'' product_rows \<and>
   field (field pie_invocation_after ''input'') ''data'' \<noteq> JArr product_rows \<and>
   field (field (field pie_invocation_after ''input'') ''config'') ''xAxisKey'' \<noteq>
     field (field (field (chart_invocation ''pie'' product_rows) ''input'') ''config'') ''xAxisKey''"
  unfolding pie_post by code_simp

text \<open>
  Claim C3, amended. In a successful response to a reply whose first tool invocation
  has a chart type other than \<^verbatim>\<open>"pie"\<close>, \<^verbatim>\<open>toolUse\<close> is that invocation as the
  service sent it. For a pie chart the invocation is overwritten in place: the
  \<^verbatim>\<open>toolUse\<close> of the response has the transformed rows of \<^verbatim>\<open>chartData\<close> as its
  \<^verbatim>\<open>input.data\<close>, and its \<^verbatim>\<open>input.config.xAxisKey\<close> is \<^verbatim>\<open>"segment"\<close>.
\<close>

theorem toolUse_after_normalization:
  assumes "respond response = Inr r"
    and "get_prop response ''content'' = Inr (JArr blocks)"
    and "get_prop (find_block ''tool_use'' blocks) ''input'' = Inr cd"
    and "get_prop cd ''chartType'' = Inr ct"
  shows "\<exists>b tu' out. body r = NormalizedBody b \<and> get_prop b ''toolUse'' = Inr tu' \<and>
           get_prop b ''chartData'' = Inr out \<and>
           (if ct = JStr ''pie''
            then \<exists>cd' cfg'. get_prop tu' ''input'' = Inr cd' \<and>
                   get_prop cd' ''data'' = get_prop out ''data'' \<and>
                   get_prop cd' ''config'' = Inr cfg' \<and>
                   get_prop cfg' ''xAxisKey'' = Inr (JStr ''segment'')
            else tu' = find_block ''tool_use'' blocks)"
proof -
  define tu where "tu = find_block ''tool_use'' blocks"
  have t: "truthy tu"
  proof (rule ccontr)
    assume "\<not> truthy tu"
    with assms(3) have "cd = JUndef" unfolding tu_def [symmetric]
      by (cases tu) (auto split: if_splits)
    with assms(4) show False by simp
  qed
  from respond_Inr [OF assms(1)] assms(2) t obtain ctext has out tu' where
    b: "body r = NormalizedBody (JObj [(''content'', ctext), (''hasToolUse'', has),
                                       (''toolUse'', tu'), (''chartData'', out)])"
    and p: "processToolResponse tu = Inr (out, tu')"
    unfolding tu_def by (auto split: if_splits)
  have "get_prop (JObj [(''content'', ctext), (''hasToolUse'', has),
                        (''toolUse'', tu'), (''chartData'', out)]) ''toolUse'' = Inr tu'"
       "get_prop (JObj [(''content'', ctext), (''hasToolUse'', has),
                        (''toolUse'', tu'), (''chartData'', out)]) ''chartData'' = Inr out"
    by simp_all
  with b normalizer_writes [OF p assms(3) [folded tu_def] assms(4)] show ?thesis
    unfolding tu_def by blast
qed

theorem toolUse_after_normalization_witness:
  "\<exists>b tu' out.
      NormalizedBody (JObj
            [(''content'', JStr ''Here it is''), (''hasToolUse'', JBool True),
             (''toolUse'', pie_invocation_after), (''chartData'', normalized_pie_chart)]) =
        NormalizedBody b \<and>
      get_prop b ''toolUse'' = Inr tu' \<and> get_prop b ''chartData'' = Inr out \<and>
      (\<exists>cd' cfg'. get_prop tu' ''input'' = Inr cd' \<and>
           get_prop cd' ''data'' = get_prop out ''data'' \<and>
           get_prop cd' ''config'' = Inr cfg' \<and>
           get_prop cfg' ''xAxisKey'' = Inr (JStr ''segment''))"
proof -
  have h: "get_prop (find_block ''tool_use''
                [JObj [(''type'', JStr ''text''), (''text'', JStr ''Here it is'')],
                 chart_invocation ''pie'' product_rows]) ''input'' =
             Inr (chart_input ''pie'' product_rows)"
    unfolding pie_reply_blocks(2) by (rule example_input_fields(1))
  show ?thesis
    using toolUse_after_normalization [OF pie_respond pie_reply_blocks(1) h
        example_input_fields(2)]
    by simp
qed

section \<open>The order of keys\<close>

lemma map_fst_obj_set:
  "map fst (obj_set kvs k v) = (if k \<in> fst ` set kvs then map fst kvs else map fst kvs @ [k])"
  by (induction kvs k v rule: obj_set.induct) force+

lemma distinct_obj_set: "distinct (map fst kvs) \<Longrightarrow> distinct (map fst (obj_set kvs k v))"
  by (simp add: map_fst_obj_set)

lemma list_all_obj_set: "list_all P kvs \<Longrightarrow> P (k, v) \<Longrightarrow> list_all P (obj_set kvs k v)"
  by (induction kvs) auto

lemma foldl_obj_set_invariant:
  "distinct (map fst acc) \<Longrightarrow> list_all P acc \<Longrightarrow> list_all P ms \<Longrightarrow>
   distinct (map fst (foldl (\<lambda>acc e. obj_set acc (fst e) (snd e)) acc ms)) \<and>
   list_all P (foldl (\<lambda>acc e. obj_set acc (fst e) (snd e)) acc ms)"
  by (induction ms arbitrary: acc) (auto simp: distinct_obj_set list_all_obj_set)

lemma foldl_obj_set_distinct:
  "distinct (map fst ms) \<Longrightarrow> fst ` set ms \<inter> fst ` set acc = {} \<Longrightarrow>
   foldl (\<lambda>acc e. obj_set acc (fst e) (snd e)) acc ms = acc @ ms"
proof (induction ms arbitrary: acc)
  case Nil
  then show ?case by simp
next
  case (Cons e ms)
  have "fst e \<notin> fst ` set acc" using Cons.prems by auto
  then have "obj_set acc (fst e) (snd e) = acc @ [e]"
    by (simp add: obj_set_fresh)
  moreover have "fst ` set ms \<inter> fst ` set (acc @ [e]) = {}"
    using Cons.prems by auto
  ultimately show ?case
    using Cons.IH [of "acc @ [e]"] Cons.prems by simp
qed

lemma own_property_order_valid:
  assumes "distinct (map fst kvs)" and "list_all P kvs"
  shows "distinct (map fst (own_property_order kvs))" and "list_all P (own_property_order kvs)"
proof -
  have s: "set (own_property_order kvs) = set kvs"
    by (auto simp: own_property_order_def)
  have "distinct kvs"
    using assms(1) by (simp add: distinct_map)
  then have d: "distinct (own_property_order kvs)"
    by (auto simp: own_property_order_def)
  show "list_all P (own_property_order kvs)"
    using assms(2) s by (simp add: list_all_iff)
  from assms(1) have "inj_on fst (set kvs)" "distinct kvs"
    by (simp_all add: distinct_map)
  with s d show "distinct (map fst (own_property_order kvs))"
    by (simp add: distinct_map)
qed

lemma own_property_order_no_index:
  "list_all (\<lambda>e. array_index (fst e) = None) kvs \<Longrightarrow> own_property_order kvs = kvs"
  by (induction kvs) (auto simp: own_property_order_def list_all_iff)

lemma property_list_valid:
  assumes "list_all P members"
  shows "distinct (map fst (property_list members))" and "list_all P (property_list members)"
proof -
  have "distinct (map fst (add_members members)) \<and> list_all P (add_members members)"
    unfolding add_members_def using assms by (intro foldl_obj_set_invariant) simp_all
  then show "distinct (map fst (property_list members))" "list_all P (property_list members)"
    unfolding property_list_def
    using own_property_order_valid [of "add_members members" P] by simp_all
qed

lemma property_list_insertion_order:
  assumes "distinct (map fst members)" and "list_all (\<lambda>e. array_index (fst e) = None) members"
  shows "property_list members = members"
proof -
  have "add_members members = members"
    unfolding add_members_def using assms(1) foldl_obj_set_distinct [of members "[]"] by simp
  with assms(2) show ?thesis
    by (simp add: property_list_def own_property_order_no_index)
qed

lemma example_chart_config_parsed:
  "property_list example_chart_config = example_chart_config"
  "JObj example_chart_config = parsed_object example_chart_config"
  by (code_simp, code_simp)

section \<open>Colour slots and the order of keys\<close>

text \<open>
  Claim C5, as stated, has the colour slots follow the original insertion order of the
  keys of \<^verbatim>\<open>chartConfig\<close>. The handler walks \<^verbatim>\<open>Object.entries\<close>, which lists keys
  that are array indices first: for a chart configuration written with the key
  \<^verbatim>\<open>b\<close> before the key \<^verbatim>\<open>1\<close>, slot 1 goes to \<^verbatim>\<open>1\<close> and slot 2 to \<^verbatim>\<open>b\<close>, where
  the insertion order gives slot 1 to \<^verbatim>\<open>b\<close>.
\<close>

theorem insertion_order_counterexample:
  "property_list written_config =
     [(''1'', JObj [(''label'', JStr ''One'')]), (''b'', JObj [(''label'', JStr ''B'')])] \<and>
   field (chart_of (chart_invocation_with ''bar'' (parsed_object written_config) product_rows))
     ''chartConfig'' =
     JObj [(''1'', JObj [(''label'', JStr ''One''), (''color'', JStr ''hsl(var(--chart-1))'')]),
           (''b'', JObj [(''label'', JStr ''B''), (''color'', JStr ''hsl(var(--chart-2))'')])] \<and>
   spec_colorize 0 written_config =
     [(''b'', JObj [(''label'', JStr ''B''), (''color'', JStr ''hsl(var(--chart-1))'')]),
      (''1'', JObj [(''label'', JStr ''One''), (''color'', JStr ''hsl(var(--chart-2))'')])] \<and>
   field (chart_of (chart_invocation_with ''bar'' (parsed_object written_config) product_rows))
     ''chartConfig'' \<noteq> JObj (spec_colorize 0 written_config)"
  by code_simp

text \<open>
  Claim C5, amended. For every valid invocation whose chart type is one of bar,
  multiBar, line, area and stackedArea (\<^verbatim>\<open>data\<close> an array, \<^verbatim>\<open>chartConfig\<close> an
  object of objects), the normalizer returns the data rows as they came (same rows,
  same order) and leaves the invocation untouched, and the chart configuration it
  returns has the keys of the input in the order in which \<^verbatim>\<open>Object.entries\<close> lists
  them (array indices in ascending numeric order, then the other keys in insertion
  order), each entry with its fields and with \<^verbatim>\<open>color\<close> set to the slot of its
  position in that order, counted from 1, whatever colour was there before. When the
  chart configuration is written with distinct keys none of which is an array index,
  that order is the original insertion order.
\<close>

theorem colors_follow_key_order:
  assumes "get_prop tu ''input'' = Inr cd"
    and "get_prop cd ''chartType'' = Inr (JStr t)"
    and "t \<in> set [''bar'', ''multiBar'', ''line'', ''area'', ''stackedArea'']"
    and "get_prop cd ''data'' = Inr (JArr rows)"
    and "get_prop cd ''chartConfig'' = Inr (parsed_object members)"
    and "list_all (\<lambda>e. is_object (snd e)) members"
  shows "\<exists>out. processToolResponse tu = Inr (out, tu) \<and>
           get_prop out ''data'' = Inr (JArr rows) \<and>
           get_prop out ''chartConfig'' = Inr (JObj (spec_colorize 0 (property_list members))) \<and>
           (distinct (map fst members) \<and> list_all (\<lambda>e. array_index (fst e) = None) members \<longrightarrow>
              property_list members = members)"
proof -
  define cc where "cc = property_list members"
  from assms(4) obtain kvs where cd: "cd = JObj kvs"
    using get_prop_defined [of cd "''data''" "JArr rows"] by (cases cd) auto
  have c: "get_prop cd ''chartConfig'' = Inr (JObj cc)"
    using assms(5) by (simp add: parsed_object_def cc_def)
  have v: "distinct (map fst cc)" "list_all (\<lambda>e. is_object (snd e)) cc"
    unfolding cc_def using assms(6) by (rule property_list_valid)+
  have "truthy (JStr t)" "JStr t \<noteq> JStr ''pie''"
    using assms(3) by auto
  then have "processToolResponse tu =
      Inr (JObj (obj_set (fields cd) ''chartConfig'' (JObj (spec_colorize 0 cc))), tu)"
    using assms(1,2,4) c v by (intro non_pie_result) auto
  moreover have "get_prop (JObj (obj_set kvs ''chartConfig'' (JObj (spec_colorize 0 cc)))) ''data''
      = Inr (JArr rows)"
    using assms(4) unfolding cd get_prop_obj_set by simp
  moreover have "get_prop (JObj (obj_set kvs ''chartConfig'' (JObj (spec_colorize 0 cc))))
      ''chartConfig'' = Inr (JObj (spec_colorize 0 cc))"
    unfolding get_prop_obj_set by simp
  ultimately show ?thesis
    using property_list_insertion_order [of members] by (simp add: cd cc_def)
qed

theorem colors_follow_key_order_witness:
  "\<exists>out. processToolResponse (chart_invocation ''bar'' product_rows) =
            Inr (out, chart_invocation ''bar'' product_rows) \<and>
         get_prop out ''data'' = Inr (JArr product_rows) \<and>
         get_prop out ''chartConfig'' = Inr (JObj
           [(''sales'', JObj [(''label'', JStr ''Sales''), (''color'', JStr ''hsl(var(--chart-1))'')]),
            (''costs'', JObj [(''label'', JStr ''Costs''), (''color'', JStr ''hsl(var(--chart-2))'')])]) \<and>
         property_list example_chart_config = example_chart_config"
proof -
  have h: "''bar'' \<in> set [''bar'', ''multiBar'', ''line'', ''area'', ''stackedArea'']"
    by simp
  have c: "get_prop (chart_input ''bar'' product_rows) ''chartConfig'' =
             Inr (parsed_object example_chart_config)"
    unfolding example_chart_config_parsed(2) [symmetric] by (rule example_input_fields(5))
  show ?thesis
    using colors_follow_key_order [OF example_input_fields(1,2) h example_input_fields(3) c
        example_chart_config_valid(2)]
    unfolding example_chart_config_parsed(1) example_colors by simp
qed

section \<open>The rows of a pie chart\<close>










end
